theory Spec2Isabelle
  imports Main "HOL-Library.AList"
begin

section \<open>Python values shared by the modules\<close>

text \<open>
  Exceptions are values. Each constructor is an exception class that some modelled
  statement can raise: an index past the end of a row, \<open>int()\<close> of a string that is no
  number or a command line that cannot be split, a missing dictionary key, a file that
  does not exist, a failed metadata probe (\<open>urlopen\<close>), a non-zero exit of the \<open>curl\<close>
  child process, an error of the database engine, an input that cannot be decompressed,
  and a row count that does not match after a rebuild.
\<close>

datatype error =
    IndexError
  | ValueError
  | KeyError string
  | URLError
  | CalledProcessError
  | OperationalError string
  | ExtractionError
  | ValidationError
  | FileNotFoundError

text \<open>A row is \<open>List[Optional[str]]\<close>: the fields of one line of a snapshot.\<close>

type_synonym row = "string option list"

definition nth_field :: "row \<Rightarrow> nat \<Rightarrow> error + string option" where
  \<comment> \<open>\<open>fields[i]\<close> for a literal index \<open>i \<ge> 0\<close>; past the end Python raises.\<close>
  "nth_field flds i = (if i < length flds then Inr (flds ! i) else Inl IndexError)"

definition py_str :: "string option \<Rightarrow> string" where
  \<comment> \<open>\<open>str(x)\<close> for \<open>x : Optional[str]\<close>; \<open>str(None)\<close> is the text \<open>None\<close>.\<close>
  "py_str v = (case v of None \<Rightarrow> ''None'' | Some s \<Rightarrow> s)"

definition py_bool :: "string option \<Rightarrow> bool" where
  \<comment> \<open>\<open>bool(x)\<close>: \<open>None\<close> and the empty string are false.\<close>
  "py_bool v = (case v of None \<Rightarrow> False | Some s \<Rightarrow> s \<noteq> [])"

fun str_split :: "char \<Rightarrow> string \<Rightarrow> string list" where
  \<comment> \<open>\<open>s.split(sep)\<close> for a one-character separator; \<open>''.split(',')\<close> is \<open>['']\<close>.\<close>
  "str_split sep [] = [[]]"
| "str_split sep (c # cs) =
     (if c = sep then [] # str_split sep cs
      else (case str_split sep cs of
              [] \<Rightarrow> [[c]]
            | p # ps \<Rightarrow> (c # p) # ps))"

section \<open>Movies (\<open>_movies.py\<close>)\<close>

record Movie =
  imdb_id :: string
  title :: string
  original_title :: bool
  year :: string
  runtime_minutes :: string

definition Movie_init :: "row \<Rightarrow> error + Movie" where
  \<comment> \<open>\<open>Movie.__init__\<close>: reads the fields 0, 2, 3, 5, 7 in this order.\<close>
  "Movie_init flds =
     (case nth_field flds 0 of Inl e \<Rightarrow> Inl e | Inr f0 \<Rightarrow>
     (case nth_field flds 2 of Inl e \<Rightarrow> Inl e | Inr f2 \<Rightarrow>
     (case nth_field flds 3 of Inl e \<Rightarrow> Inl e | Inr f3 \<Rightarrow>
     (case nth_field flds 5 of Inl e \<Rightarrow> Inl e | Inr f5 \<Rightarrow>
     (case nth_field flds 7 of Inl e \<Rightarrow> Inl e | Inr f7 \<Rightarrow>
        Inr \<lparr>Movie.imdb_id = py_str f0,
             Movie.title = py_str f2,
             original_title = py_bool f3,
             year = py_str f5,
             runtime_minutes = py_str f7\<rparr>)))))"

definition title_is_valid :: "row \<Rightarrow> error + bool" where
  \<comment> \<open>\<open>_title_is_valid\<close>: each test returns early, so a later field is only read
      when the earlier tests passed.\<close>
  "title_is_valid title_line =
     (case nth_field title_line 1 of Inl e \<Rightarrow> Inl e | Inr f1 \<Rightarrow>
      if f1 \<noteq> Some ''movie'' then Inr False else
     (case nth_field title_line 4 of Inl e \<Rightarrow> Inl e | Inr f4 \<Rightarrow>
      if f4 = Some ''1'' then Inr False else
     (case nth_field title_line 5 of Inl e \<Rightarrow> Inl e | Inr f5 \<Rightarrow>
      if f5 = None then Inr False else
     (case nth_field title_line 8 of Inl e \<Rightarrow> Inl e | Inr f8 \<Rightarrow>
      (let genres = set (str_split CHR '','' (py_str f8))
       in if ''Documentary'' \<in> genres then Inr False else Inr True)))))"

text \<open>
  \<open>_extract_movies\<close>: the loop over the rows that \<open>_imdb_s3_extractor.extract\<close> yields
  for the downloaded file. The rows are the argument here. The dictionary \<open>movies\<close> is
  an association list in insertion order; \<open>movies[k] = v\<close> overwrites the value of an
  existing key in place and appends a new key, which is \<open>AList.update\<close>.
\<close>

fun extract_movies_loop ::
  "row list \<Rightarrow> (string \<times> Movie) list \<Rightarrow> error + (string \<times> Movie) list" where
  "extract_movies_loop [] movies = Inr movies"
| "extract_movies_loop (flds # rest) movies =
     (case title_is_valid flds of
        Inl e \<Rightarrow> Inl e
      | Inr valid \<Rightarrow>
          if valid
          then (case Movie_init flds of Inl e \<Rightarrow> Inl e | Inr movie \<Rightarrow>
               (case nth_field flds 0 of Inl e \<Rightarrow> Inl e | Inr f0 \<Rightarrow>
                  extract_movies_loop rest (AList.update (py_str f0) movie movies)))
          else extract_movies_loop rest movies)"

definition extract_movies :: "row list \<Rightarrow> error + (string \<times> Movie) list" where
  "extract_movies rows = extract_movies_loop rows []"

definition example_title_rows :: "row list" where
  \<comment> \<open>Two rows of \<open>title.basics\<close>: a feature film and a documentary.\<close>
  "example_title_rows =
     [[Some ''tt0000001'', Some ''movie'', Some ''Alien'', Some ''Alien'', Some ''0'',
       Some ''1979'', None, Some ''117'', Some ''Horror,Sci-Fi''],
      [Some ''tt0000002'', Some ''movie'', Some ''Shoah'', Some ''Shoah'', Some ''0'',
       Some ''1985'', None, Some ''566'', Some ''Documentary,History'']]"

section \<open>People (\<open>_people.py\<close>)\<close>

text \<open>
  \<open>NAME_REGEX = re.compile(r'^([^\s]*)\s(.*)$')\<close>. A character is a code point below
  256; of these the class \<open>\s\<close> of a \<open>str\<close> pattern holds tab, line feed, vertical
  tab, form feed, carriage return, the four separators 28 to 31, the space, the next-line
  control 133 and the no-break space 160.
\<close>

definition is_space :: "char \<Rightarrow> bool" where
  "is_space c = (of_char c \<in> {9, 10, 11, 12, 13, 28, 29, 30, 31, 32, 133, 160 :: nat})"

text \<open>
  The one way the pattern can match, at position 0: group 1 is the longest prefix free
  of whitespace (a shorter one would leave a non-whitespace character for \<open>\s\<close>), the
  next character is the whitespace, group 2 runs to the first line feed or to the end
  (\<open>.\<close> does not match a line feed), and \<open>$\<close> holds there only at the end of the
  string or before a line feed that ends it. The result is the two groups and the text
  after the match.
\<close>

definition NAME_REGEX_match :: "string \<Rightarrow> (string \<times> string \<times> string) option" where
  "NAME_REGEX_match s =
     (let g1 = takeWhile (\<lambda>c. \<not> is_space c) s;
          after_g1 = dropWhile (\<lambda>c. \<not> is_space c) s
      in (case after_g1 of
            [] \<Rightarrow> None
          | c # r \<Rightarrow>
             (let g2 = takeWhile (\<lambda>c. c \<noteq> CHR 0x0A) r;
                  tail = dropWhile (\<lambda>c. c \<noteq> CHR 0x0A) r
              in if tail = [] \<or> tail = [CHR 0x0A] then Some (g1, g2, tail) else None)))"

definition NAME_REGEX_split :: "string \<Rightarrow> string list" where
  \<comment> \<open>\<open>NAME_REGEX.split(s)\<close>: the text before the match, the groups, the text after
      it; the whole string alone when the pattern does not match.\<close>
  "NAME_REGEX_split s =
     (case NAME_REGEX_match s of
        None \<Rightarrow> [s]
      | Some (g1, g2, tail) \<Rightarrow> ['''', g1, g2, tail])"

record Person =
  imdb_id :: string
  full_name :: string
  last_name :: "string option"
  first_name :: "string option"
  birth_year :: "string option"
  death_year :: "string option"
  primary_profession :: "string option"
  known_for_title_ids :: "string option"

definition Person_init :: "row \<Rightarrow> error + Person" where
  \<comment> \<open>\<open>Person.__init__\<close>. The list \<open>match\<close> has four elements on both paths, so
      \<open>match[1]\<close> and \<open>match[2]\<close> are in range.\<close>
  "Person_init flds =
     (case nth_field flds 1 of Inl e \<Rightarrow> Inl e | Inr f1 \<Rightarrow>
        (let split = NAME_REGEX_split (py_str f1);
             match = (if length split = 1 then ['''', split ! 0, '''', ''''] else split)
         in (case nth_field flds 0 of Inl e \<Rightarrow> Inl e | Inr f0 \<Rightarrow>
            (case nth_field flds 2 of Inl e \<Rightarrow> Inl e | Inr f2 \<Rightarrow>
            (case nth_field flds 3 of Inl e \<Rightarrow> Inl e | Inr f3 \<Rightarrow>
            (case nth_field flds 4 of Inl e \<Rightarrow> Inl e | Inr f4 \<Rightarrow>
            (case nth_field flds 5 of Inl e \<Rightarrow> Inl e | Inr f5 \<Rightarrow>
               Inr \<lparr>Person.imdb_id = py_str f0,
                    full_name = py_str f1,
                    last_name = Some (match ! 2),
                    first_name = Some (match ! 1),
                    birth_year = f2,
                    death_year = f3,
                    primary_profession = f4,
                    known_for_title_ids = f5\<rparr>)))))))"

fun known_for_loop :: "string list \<Rightarrow> string set \<Rightarrow> bool" where
  \<comment> \<open>The \<open>for title_id in ...\<close> loop of \<open>_has_valid_known_for_title_ids\<close>.\<close>
  "known_for_loop [] valid_title_ids = False"
| "known_for_loop (title_id # rest) valid_title_ids =
     (if title_id \<in> valid_title_ids then True else known_for_loop rest valid_title_ids)"

definition has_valid_known_for_title_ids :: "string option \<Rightarrow> string set \<Rightarrow> bool" where
  "has_valid_known_for_title_ids known_for valid_title_ids =
     (case known_for of
        None \<Rightarrow> False
      | Some s \<Rightarrow> known_for_loop (str_split CHR '','' s) valid_title_ids)"

text \<open>
  \<open>_extract_people\<close>: \<open>title_ids\<close> is the set that \<open>_movies.title_ids()\<close> returned, the
  rows are those the extractor yields.
\<close>

fun extract_people_loop ::
  "string set \<Rightarrow> row list \<Rightarrow> (string \<times> Person) list \<Rightarrow> error + (string \<times> Person) list" where
  "extract_people_loop title_ids [] people = Inr people"
| "extract_people_loop title_ids (flds # rest) people =
     (case nth_field flds 5 of Inl e \<Rightarrow> Inl e | Inr f5 \<Rightarrow>
        if has_valid_known_for_title_ids f5 title_ids
        then (case Person_init flds of Inl e \<Rightarrow> Inl e | Inr person \<Rightarrow>
             (case nth_field flds 0 of Inl e \<Rightarrow> Inl e | Inr f0 \<Rightarrow>
                extract_people_loop title_ids rest (AList.update (py_str f0) person people)))
        else extract_people_loop title_ids rest people)"

definition extract_people :: "string set \<Rightarrow> row list \<Rightarrow> error + (string \<times> Person) list" where
  "extract_people title_ids rows = extract_people_loop title_ids rows []"

definition name_row :: "string \<Rightarrow> row" where
  \<comment> \<open>A row of \<open>name.basics\<close> with the given name, for the worked examples.\<close>
  "name_row name =
     [Some ''nm0000001'', Some name, Some ''1950'', None, Some ''actor'', Some ''tt0000001'']"

section \<open>Alternate titles (\<open>_aka_titles.py\<close>)\<close>

text \<open>
  \<open>int(s)\<close> for a string \<open>s\<close>, in base ten. Whitespace before and after the number
  is skipped: tab, line feed, vertical tab, form feed, carriage return and space, and,
  of the code points from 128 to 255, the next-line control 133 and the no-break
  space 160, which the interpreter turns into spaces first. The separators 28 to 31 are
  whitespace for \<open>\s\<close> and for \<open>str.isspace\<close>, but not for \<open>int\<close>. After the leading
  whitespace one sign may come, then decimal digits, with a single underscore allowed
  between two digits. Anything else raises \<open>ValueError\<close>, the value \<open>None\<close> here.
  (The interpreter's limit on the number of digits, introduced after this code was
  written, is left out.)
\<close>

definition is_int_space :: "char \<Rightarrow> bool" where
  "is_int_space c = (of_char c \<in> {9, 10, 11, 12, 13, 32, 133, 160 :: nat})"

definition is_digit :: "char \<Rightarrow> bool" where
  "is_digit c = (48 \<le> (of_char c :: nat) \<and> (of_char c :: nat) \<le> 57)"

definition digit_val :: "char \<Rightarrow> nat" where
  "digit_val c = of_char c - 48"

fun parse_digits :: "string \<Rightarrow> nat \<Rightarrow> bool \<Rightarrow> nat option" where
  \<comment> \<open>The digits up to the end of the string; \<open>after_digit\<close> tells whether the
      character before was a digit.\<close>
  "parse_digits [] acc after_digit = (if after_digit then Some acc else None)"
| "parse_digits (c # cs) acc after_digit =
     (if is_digit c then parse_digits cs (acc * 10 + digit_val c) True
      else if c = CHR ''_'' \<and> after_digit then parse_digits cs acc False
      else None)"

definition int_strip :: "string \<Rightarrow> string" where
  \<comment> \<open>The string without the whitespace that \<open>int\<close> skips at both ends.\<close>
  "int_strip s = rev (dropWhile is_int_space (rev (dropWhile is_int_space s)))"

definition py_int :: "string \<Rightarrow> int option" where
  "py_int s =
     (case int_strip s of
        [] \<Rightarrow> None
      | c # cs \<Rightarrow>
          if c = CHR ''-'' then map_option (\<lambda>n. - int n) (parse_digits cs 0 False)
          else if c = CHR ''+'' then map_option int (parse_digits cs 0 False)
          else map_option int (parse_digits (c # cs) 0 False))"

record AkaTitle =
  movie_imdb_id :: string
  sequence :: int
  title :: string
  region :: "string option"
  language :: "string option"
  types :: "string option"
  attributes :: "string option"
  is_original_title :: "string option"

definition AkaTitle_init :: "row \<Rightarrow> error + AkaTitle" where
  \<comment> \<open>\<open>AkaTitle.__init__\<close>: the sequence is \<open>int(str(fields[1]))\<close>, read after field 0
      and before field 2.\<close>
  "AkaTitle_init flds =
     (case nth_field flds 0 of Inl e \<Rightarrow> Inl e | Inr f0 \<Rightarrow>
     (case nth_field flds 1 of Inl e \<Rightarrow> Inl e | Inr f1 \<Rightarrow>
     (case py_int (py_str f1) of None \<Rightarrow> Inl ValueError | Some n \<Rightarrow>
     (case nth_field flds 2 of Inl e \<Rightarrow> Inl e | Inr f2 \<Rightarrow>
     (case nth_field flds 3 of Inl e \<Rightarrow> Inl e | Inr f3 \<Rightarrow>
     (case nth_field flds 4 of Inl e \<Rightarrow> Inl e | Inr f4 \<Rightarrow>
     (case nth_field flds 5 of Inl e \<Rightarrow> Inl e | Inr f5 \<Rightarrow>
     (case nth_field flds 6 of Inl e \<Rightarrow> Inl e | Inr f6 \<Rightarrow>
     (case nth_field flds 7 of Inl e \<Rightarrow> Inl e | Inr f7 \<Rightarrow>
        Inr \<lparr>movie_imdb_id = py_str f0,
             sequence = n,
             AkaTitle.title = py_str f2,
             region = f3,
             language = f4,
             types = f5,
             attributes = f6,
             is_original_title = f7\<rparr>)))))))))"

definition in_title_ids :: "string option \<Rightarrow> string set \<Rightarrow> bool" where
  \<comment> \<open>\<open>fields[0] in title_ids\<close>: the set holds strings, so \<open>None\<close> is no member.\<close>
  "in_title_ids f0 title_ids = (case f0 of None \<Rightarrow> False | Some i \<Rightarrow> i \<in> title_ids)"

text \<open>
  \<open>_extract_aka_titles\<close>: \<open>title_ids\<close> is the set that \<open>_movies.title_ids()\<close> returned;
  the accepted rows are appended to a list, in the order read.
\<close>

fun extract_aka_titles_loop ::
  "string set \<Rightarrow> row list \<Rightarrow> AkaTitle list \<Rightarrow> error + AkaTitle list" where
  "extract_aka_titles_loop title_ids [] aka_titles = Inr aka_titles"
| "extract_aka_titles_loop title_ids (flds # rest) aka_titles =
     (case nth_field flds 0 of Inl e \<Rightarrow> Inl e | Inr f0 \<Rightarrow>
        if in_title_ids f0 title_ids
        then (case AkaTitle_init flds of Inl e \<Rightarrow> Inl e | Inr aka_title \<Rightarrow>
                extract_aka_titles_loop title_ids rest (aka_titles @ [aka_title]))
        else extract_aka_titles_loop title_ids rest aka_titles)"

definition extract_aka_titles :: "string set \<Rightarrow> row list \<Rightarrow> error + AkaTitle list" where
  "extract_aka_titles title_ids rows = extract_aka_titles_loop title_ids rows []"

definition aka_row :: "string \<Rightarrow> string \<Rightarrow> string \<Rightarrow> row" where
  \<comment> \<open>A row of \<open>title.akas\<close> with the given movie, sequence and title, for the worked
      examples.\<close>
  "aka_row movie seq t =
     [Some movie, Some seq, Some t, Some ''FR'', None, None, None, Some ''0'']"

section \<open>The fetcher (\<open>utils/download_imdb_file.py\<close>)\<close>

subsection \<open>Strings, dates and paths\<close>

fun str_nat :: "nat \<Rightarrow> string" where
  \<comment> \<open>The decimal digits of a natural number, as \<open>str(n)\<close> writes them.\<close>
  "str_nat n =
     (if n < 10 then [char_of (48 + n)] else str_nat (n div 10) @ [char_of (48 + n mod 10)])"

declare str_nat.simps [simp del]

definition str_int :: "int \<Rightarrow> string" where
  "str_int i = (if i < 0 then CHR ''-'' # str_nat (nat (- i)) else str_nat (nat i))"

definition zfill :: "nat \<Rightarrow> string \<Rightarrow> string" where
  "zfill width s = replicate (width - length s) CHR ''0'' @ s"



definition path_join :: "string \<Rightarrow> string \<Rightarrow> string" where
  \<comment> \<open>\<open>os.path.join(a, b)\<close> on a POSIX system: an absolute \<open>b\<close> replaces \<open>a\<close>; no
      separator is added after an empty \<open>a\<close> or one that ends with a separator.\<close>
  "path_join a b =
     (if b \<noteq> [] \<and> hd b = CHR ''/'' then b
      else if a = [] \<or> last a = CHR ''/'' then a @ b
      else a @ ''/'' @ b)"


subsection \<open>Splitting a command line (\<open>shlex.split\<close>)\<close>







subsection \<open>The remote side and the local file system\<close>





subsection \<open>The functions of the module\<close>








section \<open>The database\<close>

text \<open>
  The database engine, as far as the table classes use it: a database maps the name of
  a table to its columns, its rows and its indexes. A row maps column names to values.
\<close>

record pydate =
  d_year :: nat
  d_month :: nat
  d_day :: nat

datatype sqlval = SNull | SText string | SInt int | SBool bool | SDate pydate

record column =
  col_name :: string
  col_type :: string
  col_not_null :: bool
  col_primary_key :: bool
  col_references :: "(string \<times> string) option"
    \<comment> \<open>the table and column of a \<open>REFERENCES ... DEFERRABLE INITIALLY DEFERRED\<close>\<close>

record table =
  tbl_columns :: "column list"
  tbl_rows :: "(string \<times> sqlval) list list"
  tbl_indexes :: "string list"

type_synonym db = "string \<rightharpoonup> table"

datatype sql_stmt =
    DropTableIfExists string
  | CreateTable string "column list"

record insert_stmt =
  into_table :: string
  into_columns :: "string list"
  value_params :: "string list"

definition exec_stmt :: "sql_stmt \<Rightarrow> db \<Rightarrow> error + db" where
  "exec_stmt stmt d =
     (case stmt of
        DropTableIfExists name \<Rightarrow> Inr (d(name := None))
      | CreateTable name cols \<Rightarrow>
          if d name \<noteq> None
          then Inl (OperationalError (''table '' @ name @ '' already exists''))
          else Inr (d(name \<mapsto> \<lparr>tbl_columns = cols, tbl_rows = [], tbl_indexes = []\<rparr>)))"

fun exec_script :: "sql_stmt list \<Rightarrow> db \<Rightarrow> error + db" where
  "exec_script [] d = Inr d"
| "exec_script (stmt # rest) d =
     (case exec_stmt stmt d of Inl e \<Rightarrow> Inl e | Inr d' \<Rightarrow> exec_script rest d')"

fun bind_params :: "string list \<Rightarrow> string list \<Rightarrow> (string \<times> sqlval) list
    \<Rightarrow> error + (string \<times> sqlval) list" where
  \<comment> \<open>One row: each column gets the value of its named parameter.\<close>
  "bind_params (c # cs) (p # ps) parameters =
     (case map_of parameters p of
        None \<Rightarrow> Inl (OperationalError (''no value for parameter '' @ p))
      | Some v \<Rightarrow>
         (case bind_params cs ps parameters of Inl e \<Rightarrow> Inl e | Inr r \<Rightarrow> Inr ((c, v) # r)))"
| "bind_params cs ps parameters = Inr []"

definition exec_insert :: "insert_stmt \<Rightarrow> (string \<times> sqlval) list \<Rightarrow> db \<Rightarrow> error + db" where
  "exec_insert stmt parameters d =
     (case d (into_table stmt) of
        None \<Rightarrow> Inl (OperationalError (''no such table: '' @ into_table stmt))
      | Some t \<Rightarrow>
          if \<not> set (into_columns stmt) \<subseteq> set (map col_name (tbl_columns t))
          then Inl (OperationalError (''no such column in '' @ into_table stmt))
          else (case bind_params (into_columns stmt) (value_params stmt) parameters of
                  Inl e \<Rightarrow> Inl e
                | Inr r \<Rightarrow> Inr (d(into_table stmt \<mapsto> t\<lparr>tbl_rows := tbl_rows t @ [r]\<rparr>))))"

subsection \<open>The table base class\<close>

text \<open>
  Modelled from the spec: \<open>_table_base.TableBase\<close> is not among the sources. The
  table classes call four of its methods. A table class gets them as a value of the
  record \<open>table_base\<close>, so that a run can be given a database that fails (a full
  disk, a locked file) as well as one that works. The value \<open>TableBase\<close> follows
  the specification of the Table Loader: \<open>_drop_and_create\<close> runs the DDL it is given
  (drop the table if present and create it from the fixed schema), \<open>_insert\<close> runs
  the one parameterized statement once per row, \<open>_add_index\<close> creates the index on
  the named column of the table, and \<open>_validate\<close> reads back the row count and
  compares it with the size of the collection it was given, raising a fatal error on a
  mismatch.
\<close>

record table_base =
  tb_drop_and_create :: "sql_stmt list \<Rightarrow> db \<Rightarrow> error + db"
  tb_insert :: "insert_stmt \<Rightarrow> (string \<times> sqlval) list list \<Rightarrow> db \<Rightarrow> error + db"
  tb_add_index :: "string \<Rightarrow> string \<Rightarrow> db \<Rightarrow> error + db"
  tb_validate :: "string \<Rightarrow> nat \<Rightarrow> db \<Rightarrow> error + unit"

fun insert_all :: "insert_stmt \<Rightarrow> (string \<times> sqlval) list list \<Rightarrow> db \<Rightarrow> error + db" where
  "insert_all stmt [] d = Inr d"
| "insert_all stmt (parameters # rest) d =
     (case exec_insert stmt parameters d of Inl e \<Rightarrow> Inl e | Inr d' \<Rightarrow> insert_all stmt rest d')"

definition add_index :: "string \<Rightarrow> string \<Rightarrow> db \<Rightarrow> error + db" where
  "add_index table_name col d =
     (case d table_name of
        None \<Rightarrow> Inl (OperationalError (''no such table: '' @ table_name))
      | Some t \<Rightarrow>
          if col \<notin> set (map col_name (tbl_columns t))
          then Inl (OperationalError (''no such column: '' @ col))
          else Inr (d(table_name \<mapsto> t\<lparr>tbl_indexes := tbl_indexes t @ [col]\<rparr>)))"

definition validate :: "string \<Rightarrow> nat \<Rightarrow> db \<Rightarrow> error + unit" where
  "validate table_name expected d =
     (case d table_name of
        None \<Rightarrow> Inl (OperationalError (''no such table: '' @ table_name))
      | Some t \<Rightarrow> if length (tbl_rows t) = expected then Inr () else Inl ValidationError)"

text \<open>
  Modelled from the spec: the table base class of the specification (see above).
\<close>

definition TableBase :: table_base where
  "TableBase =
     \<lparr>tb_drop_and_create = exec_script,
      tb_insert = insert_all,
      tb_add_index = add_index,
      tb_validate = validate\<rparr>"

section \<open>Viewings (\<open>viewings.py\<close>)\<close>

definition TABLE_NAME :: string where
  "TABLE_NAME = ''viewings''"

text \<open>
  A YAML document is the mapping that \<open>yaml.dump\<close> is given and that \<open>yaml.safe_load\<close>
  gives back: keys in the order written, values that are integers, strings or dates
  (the other kinds of YAML values are left out).
\<close>

datatype yaml_value = YInt int | YStr string | YDate pydate

type_synonym yaml_object = "(string \<times> yaml_value) list"

text \<open>
  The dataclass \<open>Viewing\<close>. A field holds the value it was given, whatever its
  annotation says: nothing checks the types, and \<open>load\<close> stores the values of the
  document as they come. So the six fields hold YAML values. In a viewing as the
  annotations describe it, \<open>imdb_id\<close>, \<open>title\<close> and \<open>venue\<close> hold strings, \<open>year\<close>
  and \<open>sequence\<close> integers, and \<open>date\<close> a date.
\<close>

record Viewing =
  imdb_id :: yaml_value
  title :: yaml_value
  year :: yaml_value
  venue :: yaml_value
  sequence :: yaml_value
  date :: yaml_value
  file_path :: "string option"

definition isoformat :: "pydate \<Rightarrow> string" where
  \<comment> \<open>\<open>str(d)\<close> of a date: the year on four digits, month and day on two.\<close>
  "isoformat d =
     zfill 4 (str_nat (d_year d)) @ ''-'' @ zfill 2 (str_nat (d_month d)) @ ''-''
       @ zfill 2 (str_nat (d_day d))"

definition str_value :: "yaml_value \<Rightarrow> string" where
  \<comment> \<open>\<open>f'{value}'\<close>, which is \<open>str(value)\<close> for these values.\<close>
  "str_value v = (case v of YInt n \<Rightarrow> str_int n | YStr s \<Rightarrow> s | YDate d \<Rightarrow> isoformat d)"

definition title_with_year :: "Viewing \<Rightarrow> string" where
  \<comment> \<open>The property \<open>title_with_year\<close>: \<open>f'{self.title} ({self.year})'\<close>.\<close>
  "title_with_year v = str_value (Viewing.title v) @ '' ('' @ str_value (year v) @ '')''"

definition to_yaml :: "Viewing \<Rightarrow> yaml_object" where
  "to_yaml v =
     [(''sequence'', Viewing.sequence v),
      (''date'', date v),
      (''imdb_id'', Viewing.imdb_id v),
      (''title'', YStr (title_with_year v)),
      (''venue'', venue v)]"

definition yaml_get :: "yaml_object \<Rightarrow> string \<Rightarrow> error + yaml_value" where
  \<comment> \<open>\<open>yaml_object[key]\<close>: a missing key raises \<open>KeyError\<close>.\<close>
  "yaml_get yaml_object key =
     (case map_of yaml_object key of None \<Rightarrow> Inl (KeyError key) | Some v \<Rightarrow> Inr v)"

text \<open>
  The files of viewing records: the documents by path, and the directories.
\<close>

record viewings_fs =
  yaml_files :: "string \<rightharpoonup> yaml_object"
  dirs :: "string set"

text \<open>
  \<open>Viewing.load\<close> reads the keys in the order of the keyword arguments: \<open>imdb_id\<close>,
  \<open>title\<close>, \<open>year\<close>, \<open>venue\<close>, \<open>sequence\<close>, \<open>date\<close>. The first key that is
  missing raises \<open>KeyError\<close>. The values are stored as they are.
\<close>

definition Viewing_load :: "string \<Rightarrow> viewings_fs \<Rightarrow> error + Viewing" where
  "Viewing_load yaml_file_path fs =
     (case yaml_files fs yaml_file_path of
        None \<Rightarrow> Inl FileNotFoundError
      | Some yaml_object \<Rightarrow>
     (case yaml_get yaml_object ''imdb_id'' of Inl e \<Rightarrow> Inl e | Inr v_imdb_id \<Rightarrow>
     (case yaml_get yaml_object ''title'' of Inl e \<Rightarrow> Inl e | Inr v_title \<Rightarrow>
     (case yaml_get yaml_object ''year'' of Inl e \<Rightarrow> Inl e | Inr v_year \<Rightarrow>
     (case yaml_get yaml_object ''venue'' of Inl e \<Rightarrow> Inl e | Inr v_venue \<Rightarrow>
     (case yaml_get yaml_object ''sequence'' of Inl e \<Rightarrow> Inl e | Inr v_sequence \<Rightarrow>
     (case yaml_get yaml_object ''date'' of Inl e \<Rightarrow> Inl e | Inr v_date \<Rightarrow>
        Inr \<lparr>Viewing.imdb_id = v_imdb_id, Viewing.title = v_title, year = v_year,
             venue = v_venue, Viewing.sequence = v_sequence, date = v_date,
             file_path = Some yaml_file_path\<rparr>)))))))"

definition format_04 :: "yaml_value \<Rightarrow> string" where
  \<comment> \<open>\<open>f'{value:04}'\<close>. An integer gets zeros between its sign and its digits, up to
      a width of four. A string is padded with zeros on its right up to that width (so
      the interpreter does from version 3.10 on). A date takes the format as a
      \<open>strftime\<close> pattern, which holds no directive here.\<close>
  "format_04 v =
     (case v of
        YInt n \<Rightarrow>
          (let sign = (if n < 0 then ''-'' else '''');
               digits = str_nat (nat \<bar>n\<bar>)
           in sign @ replicate (4 - length sign - length digits) CHR ''0'' @ digits)
      | YStr s \<Rightarrow> s @ replicate (4 - length s) CHR ''0''
      | YDate d \<Rightarrow> ''04'')"

definition dirname :: "string \<Rightarrow> string" where
  \<comment> \<open>\<open>os.path.dirname\<close>: the path up to its last separator, without the separators
      that end it, unless it holds separators only.\<close>
  "dirname p =
     (let head = rev (dropWhile (\<lambda>c. c \<noteq> CHR ''/'') (rev p))
      in if head \<noteq> [] \<and> \<not> (\<forall>c \<in> set head. c = CHR ''/'')
         then rev (dropWhile (\<lambda>c. c = CHR ''/'') (rev head))
         else head)"

definition path_exists :: "viewings_fs \<Rightarrow> string \<Rightarrow> bool" where
  "path_exists fs p = (p \<in> dirs fs \<or> yaml_files fs p \<noteq> None)"

text \<open>
  \<open>Viewing.save\<close>. The function \<open>slugify\<close> of the library of that name is a parameter.
  Writing the file is taken to succeed. The result is the returned path, the viewing
  with its \<open>file_path\<close> set, and the files after the write.
\<close>

definition save :: "(string \<Rightarrow> string) \<Rightarrow> Viewing \<Rightarrow> viewings_fs \<Rightarrow> string \<times> Viewing \<times> viewings_fs" where
  "save slugify v fs =
     (let (path, fs1) =
            (if file_path v = None \<or> file_path v = Some ''''
             then (let slug = slugify (format_04 (Viewing.sequence v) @ '' '' @ title_with_year v);
                       p = path_join TABLE_NAME (slug @ ''.yml'')
                   in if \<not> path_exists fs (dirname p)
                      then (p, fs\<lparr>dirs := insert (dirname p) (dirs fs)\<rparr>)
                      else (p, fs))
             else (the (file_path v), fs));
          fs2 = fs1\<lparr>yaml_files := (yaml_files fs1)(path \<mapsto> to_yaml v)\<rparr>
      in (path, v\<lparr>file_path := Some path\<rparr>, fs2))"

fun load_viewings :: "string list \<Rightarrow> viewings_fs \<Rightarrow> error + Viewing list" where
  \<comment> \<open>\<open>_load_viewings\<close>: the paths are those that \<open>glob\<close> found under \<open>viewings/\<close>.\<close>
  "load_viewings [] fs = Inr []"
| "load_viewings (yaml_file_path # rest) fs =
     (case Viewing_load yaml_file_path fs of Inl e \<Rightarrow> Inl e | Inr v \<Rightarrow>
     (case load_viewings rest fs of Inl e \<Rightarrow> Inl e | Inr vs \<Rightarrow> Inr (v # vs)))"

subsection \<open>The viewings table\<close>

text \<open>
  The DDL of \<open>ViewingsTable.drop_and_create\<close>, statement by statement. The table it
  drops is \<open>TABLE_NAME\<close>; the table it creates is named \<open>movies\<close> in the text of the
  statement. In the column list no comma follows \<open>"id"\<close>, so the words up to
  \<open>NOT NULL\<close> are the declared type of the column \<open>id\<close>, and the reference is
  to \<open>movies(id)\<close>.
\<close>

definition viewings_ddl :: "sql_stmt list" where
  "viewings_ddl =
     [DropTableIfExists TABLE_NAME,
      CreateTable ''movies''
        [\<lparr>col_name = ''id'', col_type = ''movie_imdb_id TEXT'', col_not_null = True,
          col_primary_key = False, col_references = Some (''movies'', ''id'')\<rparr>,
         \<lparr>col_name = ''date'', col_type = ''DATE'', col_not_null = True,
          col_primary_key = False, col_references = None\<rparr>,
         \<lparr>col_name = ''sequence'', col_type = ''INT'', col_not_null = True,
          col_primary_key = False, col_references = None\<rparr>,
         \<lparr>col_name = ''venue'', col_type = ''TEXT'', col_not_null = True,
          col_primary_key = False, col_references = None\<rparr>]]"

definition viewings_insert_stmt :: insert_stmt where
  "viewings_insert_stmt =
     \<lparr>into_table = ''viewings'',
      into_columns = [''movie_imdb_id'', ''date'', ''sequence'', ''venue''],
      value_params = [''imdb_id'', ''date'', ''sequence'', ''venue'']\<rparr>"

definition sql_value :: "yaml_value \<Rightarrow> sqlval" where
  \<comment> \<open>The value as it is bound to a parameter of a statement.\<close>
  "sql_value v = (case v of YInt n \<Rightarrow> SInt n | YStr s \<Rightarrow> SText s | YDate d \<Rightarrow> SDate d)"

definition asdict_viewing :: "Viewing \<Rightarrow> (string \<times> sqlval) list" where
  "asdict_viewing v =
     [(''imdb_id'', sql_value (Viewing.imdb_id v)),
      (''title'', sql_value (Viewing.title v)),
      (''year'', sql_value (year v)),
      (''venue'', sql_value (venue v)),
      (''sequence'', sql_value (Viewing.sequence v)),
      (''date'', sql_value (date v)),
      (''file_path'', (case file_path v of None \<Rightarrow> SNull | Some p \<Rightarrow> SText p))]"

definition ViewingsTable_drop_and_create :: "table_base \<Rightarrow> db \<Rightarrow> error + db" where
  "ViewingsTable_drop_and_create base d = tb_drop_and_create base viewings_ddl d"

definition ViewingsTable_insert :: "table_base \<Rightarrow> Viewing list \<Rightarrow> db \<Rightarrow> error + db" where
  "ViewingsTable_insert base viewings d =
     (case tb_insert base viewings_insert_stmt (map asdict_viewing viewings) d of
        Inl e \<Rightarrow> Inl e | Inr d1 \<Rightarrow>
     (case tb_add_index base TABLE_NAME ''sequence'' d1 of Inl e \<Rightarrow> Inl e | Inr d2 \<Rightarrow>
     (case tb_add_index base TABLE_NAME ''venue'' d2 of Inl e \<Rightarrow> Inl e | Inr d3 \<Rightarrow>
     (case tb_add_index base TABLE_NAME ''movie_imdb_id'' d3 of Inl e \<Rightarrow> Inl e | Inr d4 \<Rightarrow>
     (case tb_validate base TABLE_NAME (length viewings) d4 of
        Inl e \<Rightarrow> Inl e | Inr u \<Rightarrow> Inr d4)))))"

definition viewings_update ::
  "table_base \<Rightarrow> string list \<Rightarrow> viewings_fs \<Rightarrow> db \<Rightarrow> error + db" where
  \<comment> \<open>\<open>update\<close> of \<open>viewings.py\<close>.\<close>
  "viewings_update base found fs d =
     (case load_viewings found fs of Inl e \<Rightarrow> Inl e | Inr viewings \<Rightarrow>
     (case ViewingsTable_drop_and_create base d of Inl e \<Rightarrow> Inl e | Inr d1 \<Rightarrow>
        ViewingsTable_insert base viewings d1))"

definition example_viewing :: Viewing where
  \<comment> \<open>A viewing with values of the annotated types, for the worked examples.\<close>
  "example_viewing =
     \<lparr>Viewing.imdb_id = YStr ''tt0000001'', Viewing.title = YStr ''Alien'', year = YInt 1979,
      venue = YStr ''Blu-ray'', Viewing.sequence = YInt 12,
      date = YDate \<lparr>d_year = 2020, d_month = 3, d_day = 7\<rparr>, file_path = None\<rparr>"

section \<open>The refresh of the tables (\<open>update\<close> in \<open>_movies.py\<close>, \<open>_people.py\<close>, \<open>_aka_titles.py\<close>)\<close>

subsection \<open>The table classes\<close>

definition mk_column :: "string \<Rightarrow> string \<Rightarrow> bool \<Rightarrow> bool \<Rightarrow> (string \<times> string) option \<Rightarrow> column" where
  "mk_column name type not_null primary_key refs =
     \<lparr>col_name = name, col_type = type, col_not_null = not_null,
      col_primary_key = primary_key, col_references = refs\<rparr>"

definition opt_text :: "string option \<Rightarrow> sqlval" where
  "opt_text v = (case v of None \<Rightarrow> SNull | Some s \<Rightarrow> SText s)"

definition movies_ddl :: "sql_stmt list" where
  "movies_ddl =
     [DropTableIfExists ''movies'',
      CreateTable ''movies''
        [mk_column ''imdb_id'' ''TEXT'' True True None,
         mk_column ''title'' ''TEXT'' True False None,
         mk_column ''year'' ''INT'' True False None,
         mk_column ''runtime_minutes'' ''INT'' False False None]]"

definition movies_insert_stmt :: insert_stmt where
  "movies_insert_stmt =
     \<lparr>into_table = ''movies'',
      into_columns = [''imdb_id'', ''title'', ''year'', ''runtime_minutes''],
      value_params = [''imdb_id'', ''title'', ''year'', ''runtime_minutes'']\<rparr>"

definition asdict_movie :: "Movie \<Rightarrow> (string \<times> sqlval) list" where
  "asdict_movie m =
     [(''imdb_id'', SText (Movie.imdb_id m)),
      (''title'', SText (Movie.title m)),
      (''original_title'', SBool (original_title m)),
      (''year'', SText (Movie.year m)),
      (''runtime_minutes'', SText (runtime_minutes m))]"

definition MoviesTable_drop_and_create :: "table_base \<Rightarrow> db \<Rightarrow> error + db" where
  "MoviesTable_drop_and_create base d = tb_drop_and_create base movies_ddl d"

definition MoviesTable_insert :: "table_base \<Rightarrow> (string \<times> Movie) list \<Rightarrow> db \<Rightarrow> error + db" where
  "MoviesTable_insert base movies d =
     (case tb_insert base movies_insert_stmt (map (\<lambda>(k, movie). asdict_movie movie) movies) d of
        Inl e \<Rightarrow> Inl e | Inr d1 \<Rightarrow>
     (case tb_add_index base ''movies'' ''title'' d1 of Inl e \<Rightarrow> Inl e | Inr d2 \<Rightarrow>
     (case tb_validate base ''movies'' (length movies) d2 of
        Inl e \<Rightarrow> Inl e | Inr u \<Rightarrow> Inr d2)))"

definition people_ddl :: "sql_stmt list" where
  "people_ddl =
     [DropTableIfExists ''people'',
      CreateTable ''people''
        [mk_column ''imdb_id'' ''TEXT'' True True None,
         mk_column ''full_name'' ''varchar(255)'' True False None,
         mk_column ''last_name'' ''varchar(255)'' False False None,
         mk_column ''first_name'' ''varchar(255)'' False False None,
         mk_column ''birth_year'' ''TEXT'' False False None,
         mk_column ''death_year'' ''TEXT'' False False None,
         mk_column ''primary_profession'' ''TEXT'' False False None,
         mk_column ''known_for_title_ids'' ''TEXT'' False False None]]"

definition people_insert_stmt :: insert_stmt where
  "people_insert_stmt =
     \<lparr>into_table = ''people'',
      into_columns = [''imdb_id'', ''full_name'', ''last_name'', ''first_name'', ''birth_year'',
                      ''death_year'', ''primary_profession'', ''known_for_title_ids''],
      value_params = [''imdb_id'', ''full_name'', ''last_name'', ''first_name'', ''birth_year'',
                      ''death_year'', ''primary_profession'', ''known_for_title_ids'']\<rparr>"

definition asdict_person :: "Person \<Rightarrow> (string \<times> sqlval) list" where
  "asdict_person p =
     [(''imdb_id'', SText (Person.imdb_id p)),
      (''full_name'', SText (full_name p)),
      (''last_name'', opt_text (last_name p)),
      (''first_name'', opt_text (first_name p)),
      (''birth_year'', opt_text (birth_year p)),
      (''death_year'', opt_text (death_year p)),
      (''primary_profession'', opt_text (primary_profession p)),
      (''known_for_title_ids'', opt_text (known_for_title_ids p))]"

definition PeopleTable_drop_and_create :: "table_base \<Rightarrow> db \<Rightarrow> error + db" where
  "PeopleTable_drop_and_create base d = tb_drop_and_create base people_ddl d"

definition PeopleTable_insert :: "table_base \<Rightarrow> (string \<times> Person) list \<Rightarrow> db \<Rightarrow> error + db" where
  "PeopleTable_insert base people d =
     (case tb_insert base people_insert_stmt (map (\<lambda>(k, person). asdict_person person) people) d of
        Inl e \<Rightarrow> Inl e | Inr d1 \<Rightarrow>
     (case tb_add_index base ''people'' ''full_name'' d1 of Inl e \<Rightarrow> Inl e | Inr d2 \<Rightarrow>
     (case tb_validate base ''people'' (length people) d2 of
        Inl e \<Rightarrow> Inl e | Inr u \<Rightarrow> Inr d2)))"

definition aka_titles_ddl :: "sql_stmt list" where
  "aka_titles_ddl =
     [DropTableIfExists ''aka_titles'',
      CreateTable ''aka_titles''
        [mk_column ''id'' ''INTEGER'' True True None,
         mk_column ''movie_imdb_id'' ''TEXT'' True False (Some (''movies'', ''imdb_id'')),
         mk_column ''sequence'' ''INT'' True False None,
         mk_column ''title'' ''TEXT'' True False None,
         mk_column ''region'' ''TEXT'' False False None,
         mk_column ''language'' ''TEXT'' False False None,
         mk_column ''types'' ''TEXT'' False False None,
         mk_column ''attributes'' ''TEXT'' False False None,
         mk_column ''is_original_title'' ''BOOLEAN'' False False None]]"

definition aka_titles_insert_stmt :: insert_stmt where
  "aka_titles_insert_stmt =
     \<lparr>into_table = ''aka_titles'',
      into_columns = [''movie_imdb_id'', ''sequence'', ''title'', ''region'', ''language'',
                      ''types'', ''attributes'', ''is_original_title''],
      value_params = [''movie_imdb_id'', ''sequence'', ''title'', ''region'', ''language'',
                      ''types'', ''attributes'', ''is_original_title'']\<rparr>"

definition asdict_aka_title :: "AkaTitle \<Rightarrow> (string \<times> sqlval) list" where
  "asdict_aka_title a =
     [(''movie_imdb_id'', SText (movie_imdb_id a)),
      (''sequence'', SInt (AkaTitle.sequence a)),
      (''title'', SText (AkaTitle.title a)),
      (''region'', opt_text (region a)),
      (''language'', opt_text (language a)),
      (''types'', opt_text (types a)),
      (''attributes'', opt_text (attributes a)),
      (''is_original_title'', opt_text (is_original_title a))]"

definition AkaTitlesTable_drop_and_create :: "table_base \<Rightarrow> db \<Rightarrow> error + db" where
  "AkaTitlesTable_drop_and_create base d = tb_drop_and_create base aka_titles_ddl d"

definition AkaTitlesTable_insert :: "table_base \<Rightarrow> AkaTitle list \<Rightarrow> db \<Rightarrow> error + db" where
  "AkaTitlesTable_insert base aka_titles d =
     (case tb_insert base aka_titles_insert_stmt (map asdict_aka_title aka_titles) d of
        Inl e \<Rightarrow> Inl e | Inr d1 \<Rightarrow>
     (case tb_add_index base ''aka_titles'' ''title'' d1 of Inl e \<Rightarrow> Inl e | Inr d2 \<Rightarrow>
     (case tb_validate base ''aka_titles'' (length aka_titles) d2 of
        Inl e \<Rightarrow> Inl e | Inr u \<Rightarrow> Inr d2)))"

subsection \<open>The state of a process and what surrounds it\<close>

text \<open>
  The state that the refresh functions read and write: the database, the checkpoint
  markers by path of the snapshot file, the one slot of the cache of \<open>title_ids\<close>
  (\<open>lru_cache(1)\<close>; \<open>None\<close> when nothing is cached), and the list of the passes of
  decompressing and parsing made so far, each with the path it read.
\<close>

record world =
  tables :: db
  markers :: "string set"
  title_ids_cache :: "string set option"
  passes :: "string list"

text \<open>
  What surrounds a run: the downloader, which maps the name of a snapshot file to the
  local path of its current generation or fails; the content of the snapshot files,
  as the rows that the extractor yields for a path, or its failure; and the table
  base class.
\<close>

record surroundings =
  download :: "string \<Rightarrow> error + string"
  snapshot :: "string \<Rightarrow> error + row list"
  base :: table_base

text \<open>
  Modelled from the spec: \<open>_imdb_s3_extractor.extract\<close> is not among the sources. By
  the specification of the Checkpointed Extractor it yields the parsed rows of the
  file in one pass of decompressing and parsing, the header line skipped, and a
  malformed input is a fatal error. Each call is one pass, recorded in \<open>passes\<close>.
\<close>

definition extract_rows :: "surroundings \<Rightarrow> string \<Rightarrow> world \<Rightarrow> (error + row list) \<times> world" where
  "extract_rows env path w = (snapshot env path, w\<lparr>passes := passes w @ [path]\<rparr>)"

text \<open>
  Modelled from the spec: \<open>_imdb_s3_extractor.checkpoint\<close> is not among the sources.
  By the specification, the loop \<open>for _ in checkpoint(path): body\<close> runs the body once
  when the marker of the path is absent, and the marker is committed only after the
  body has finished without error; when the marker is present the handle yields
  nothing and the body is skipped.
\<close>

definition checkpoint ::
  "string \<Rightarrow> (world \<Rightarrow> (error + unit) \<times> world) \<Rightarrow> world \<Rightarrow> (error + unit) \<times> world" where
  "checkpoint path body w =
     (if path \<in> markers w then (Inr (), w)
      else (case body w of
              (Inl e, w') \<Rightarrow> (Inl e, w')
            | (Inr u, w') \<Rightarrow> (Inr (), w'\<lparr>markers := insert path (markers w')\<rparr>)))"

subsection \<open>The registry of accepted movie identifiers\<close>

definition select_imdb_ids :: "table \<Rightarrow> string set" where
  \<comment> \<open>\<open>select imdb_id from movies\<close>, each row reduced to its first column, as a set.\<close>
  "select_imdb_ids t =
     set (concat (map (\<lambda>r. case map_of r ''imdb_id'' of Some (SText s) \<Rightarrow> [s] | _ \<Rightarrow> [])
                      (tbl_rows t)))"

definition title_ids :: "world \<Rightarrow> (error + string set) \<times> world" where
  \<comment> \<open>\<open>title_ids\<close> under \<open>lru_cache(1)\<close>: a cached result is returned as it is; a
      computed result is cached; an exception is not.\<close>
  "title_ids w =
     (case title_ids_cache w of
        Some ids \<Rightarrow> (Inr ids, w)
      | None \<Rightarrow>
         (case tables w ''movies'' of
            None \<Rightarrow> (Inl (OperationalError ''no such table: movies''), w)
          | Some t \<Rightarrow>
              if ''imdb_id'' \<notin> set (map col_name (tbl_columns t))
              then (Inl (OperationalError ''no such column: imdb_id''), w)
              else (Inr (select_imdb_ids t), w\<lparr>title_ids_cache := Some (select_imdb_ids t)\<rparr>)))"

definition cache_clear :: "world \<Rightarrow> world" where
  "cache_clear w = w\<lparr>title_ids_cache := None\<rparr>"

subsection \<open>The three refreshes\<close>

definition movies_FILE_NAME :: string where
  "movies_FILE_NAME = ''title.basics.tsv.gz''"

definition people_FILE_NAME :: string where
  "people_FILE_NAME = ''name.basics.tsv.gz''"

definition aka_titles_FILE_NAME :: string where
  "aka_titles_FILE_NAME = ''title.akas.tsv.gz''"

text \<open>
  The body of the loop in \<open>update\<close> of \<open>_movies.py\<close>: extract, drop and create,
  insert, and then, as the last statement, \<open>title_ids.cache_clear()\<close>. A statement that
  raises ends the body there.
\<close>

definition movies_body :: "surroundings \<Rightarrow> string \<Rightarrow> world \<Rightarrow> (error + unit) \<times> world" where
  "movies_body env downloaded_file_path w =
     (case extract_rows env downloaded_file_path w of
        (Inl e, w1) \<Rightarrow> (Inl e, w1)
      | (Inr snapshot_rows, w1) \<Rightarrow>
     (case extract_movies snapshot_rows of
        Inl e \<Rightarrow> (Inl e, w1)
      | Inr movies \<Rightarrow>
     (case MoviesTable_drop_and_create (base env) (tables w1) of
        Inl e \<Rightarrow> (Inl e, w1)
      | Inr d1 \<Rightarrow>
     (case MoviesTable_insert (base env) movies d1 of
        Inl e \<Rightarrow> (Inl e, w1\<lparr>tables := d1\<rparr>)
      | Inr d2 \<Rightarrow> (Inr (), cache_clear (w1\<lparr>tables := d2\<rparr>))))))"

definition movies_update :: "surroundings \<Rightarrow> world \<Rightarrow> (error + unit) \<times> world" where
  "movies_update env w =
     (case download env movies_FILE_NAME of
        Inl e \<Rightarrow> (Inl e, w)
      | Inr downloaded_file_path \<Rightarrow>
          checkpoint downloaded_file_path (movies_body env downloaded_file_path) w)"

definition people_body :: "surroundings \<Rightarrow> string \<Rightarrow> world \<Rightarrow> (error + unit) \<times> world" where
  "people_body env downloaded_file_path w =
     (case title_ids w of
        (Inl e, w0) \<Rightarrow> (Inl e, w0)
      | (Inr ids, w0) \<Rightarrow>
     (case extract_rows env downloaded_file_path w0 of
        (Inl e, w1) \<Rightarrow> (Inl e, w1)
      | (Inr snapshot_rows, w1) \<Rightarrow>
     (case extract_people ids snapshot_rows of
        Inl e \<Rightarrow> (Inl e, w1)
      | Inr people \<Rightarrow>
     (case PeopleTable_drop_and_create (base env) (tables w1) of
        Inl e \<Rightarrow> (Inl e, w1)
      | Inr d1 \<Rightarrow>
     (case PeopleTable_insert (base env) people d1 of
        Inl e \<Rightarrow> (Inl e, w1\<lparr>tables := d1\<rparr>)
      | Inr d2 \<Rightarrow> (Inr (), w1\<lparr>tables := d2\<rparr>))))))"

definition people_update :: "surroundings \<Rightarrow> world \<Rightarrow> (error + unit) \<times> world" where
  "people_update env w =
     (case download env people_FILE_NAME of
        Inl e \<Rightarrow> (Inl e, w)
      | Inr downloaded_file_path \<Rightarrow>
          checkpoint downloaded_file_path (people_body env downloaded_file_path) w)"

definition aka_titles_body :: "surroundings \<Rightarrow> string \<Rightarrow> world \<Rightarrow> (error + unit) \<times> world" where
  "aka_titles_body env downloaded_file_path w =
     (case title_ids w of
        (Inl e, w0) \<Rightarrow> (Inl e, w0)
      | (Inr ids, w0) \<Rightarrow>
     (case extract_rows env downloaded_file_path w0 of
        (Inl e, w1) \<Rightarrow> (Inl e, w1)
      | (Inr snapshot_rows, w1) \<Rightarrow>
     (case extract_aka_titles ids snapshot_rows of
        Inl e \<Rightarrow> (Inl e, w1)
      | Inr aka_titles \<Rightarrow>
     (case AkaTitlesTable_drop_and_create (base env) (tables w1) of
        Inl e \<Rightarrow> (Inl e, w1)
      | Inr d1 \<Rightarrow>
     (case AkaTitlesTable_insert (base env) aka_titles d1 of
        Inl e \<Rightarrow> (Inl e, w1\<lparr>tables := d1\<rparr>)
      | Inr d2 \<Rightarrow> (Inr (), w1\<lparr>tables := d2\<rparr>))))))"

definition aka_titles_update :: "surroundings \<Rightarrow> world \<Rightarrow> (error + unit) \<times> world" where
  "aka_titles_update env w =
     (case download env aka_titles_FILE_NAME of
        Inl e \<Rightarrow> (Inl e, w)
      | Inr downloaded_file_path \<Rightarrow>
          checkpoint downloaded_file_path (aka_titles_body env downloaded_file_path) w)"

subsection \<open>Worked examples\<close>

definition example_surroundings :: "table_base \<Rightarrow> surroundings" where
  "example_surroundings b =
     \<lparr>download = (\<lambda>name. Inr (''/data/2020-03-07/'' @ name)),
      snapshot = (\<lambda>path.
         if path = ''/data/2020-03-07/title.basics.tsv.gz'' then Inr example_title_rows
         else if path = ''/data/2020-03-07/name.basics.tsv.gz''
         then Inr [name_row ''Sigourney Weaver'']
         else if path = ''/data/2020-03-07/title.akas.tsv.gz''
         then Inr [aka_row ''tt0000001'' ''5'' ''Alien'', aka_row ''tt0000009'' ''1'' ''Nine'',
                   aka_row ''tt0000001'' ''2'' ''Le huitieme passager'']
         else Inr []),
      base = b\<rparr>"

definition old_movies_table :: table where
  \<comment> \<open>The table of an earlier generation, with the one movie \<open>tt0000009\<close>.\<close>
  "old_movies_table =
     \<lparr>tbl_columns = [mk_column ''imdb_id'' ''TEXT'' True True None,
                 mk_column ''title'' ''TEXT'' True False None,
                 mk_column ''year'' ''INT'' True False None,
                 mk_column ''runtime_minutes'' ''INT'' False False None],
      tbl_rows = [[(''imdb_id'', SText ''tt0000009''), (''title'', SText ''Nine''),
               (''year'', SText ''1999''), (''runtime_minutes'', SText ''90'')]],
      tbl_indexes = [''title'']\<rparr>"

definition old_world :: world where
  \<comment> \<open>A process that has read the registry from the earlier generation.\<close>
  "old_world =
     \<lparr>tables = [''movies'' \<mapsto> old_movies_table],
      markers = {},
      title_ids_cache = Some {''tt0000009''},
      passes = []\<rparr>"

definition new_movies_table :: table where
  \<comment> \<open>The table of the generation of the examples, with the one movie \<open>tt0000001\<close>.\<close>
  "new_movies_table =
     \<lparr>tbl_columns = [mk_column ''imdb_id'' ''TEXT'' True True None,
                 mk_column ''title'' ''TEXT'' True False None,
                 mk_column ''year'' ''INT'' True False None,
                 mk_column ''runtime_minutes'' ''INT'' False False None],
      tbl_rows = [[(''imdb_id'', SText ''tt0000001''), (''title'', SText ''Alien''),
               (''year'', SText ''1979''), (''runtime_minutes'', SText ''117'')]],
      tbl_indexes = [''title'']\<rparr>"

definition refreshed_world :: world where
  \<comment> \<open>The process of \<open>old_world\<close> after the Movie refresh on the generation of the
      examples.\<close>
  "refreshed_world =
     \<lparr>tables = [''movies'' \<mapsto> new_movies_table],
      markers = {''/data/2020-03-07/title.basics.tsv.gz''},
      title_ids_cache = None,
      passes = [''/data/2020-03-07/title.basics.tsv.gz'']\<rparr>"

definition failing_insert :: table_base where
  \<comment> \<open>A table base on a database that accepts the DDL and refuses every insert.\<close>
  "failing_insert =
     TableBase\<lparr>tb_insert :=
       (\<lambda>stmt parameter_seq d. Inl (OperationalError ''database or disk is full''))\<rparr>"

section \<open>The Movie extractor\<close>

lemma nth_field_in_range: "i < length flds \<Longrightarrow> nth_field flds i = Inr (flds ! i)"
  by (simp add: nth_field_def)

lemma title_is_valid_total:
  assumes "9 \<le> length flds"
  shows "title_is_valid flds =
           Inr (flds ! 1 = Some ''movie'' \<and> flds ! 4 \<noteq> Some ''1'' \<and> flds ! 5 \<noteq> None
                \<and> ''Documentary'' \<notin> set (str_split CHR '','' (py_str (flds ! 8))))"
  using assms by (simp add: title_is_valid_def nth_field_def Let_def)

lemma Movie_init_total:
  assumes "8 \<le> length flds"
  shows "Movie_init flds =
           Inr \<lparr>Movie.imdb_id = py_str (flds ! 0), Movie.title = py_str (flds ! 2),
                original_title = py_bool (flds ! 3), Movie.year = py_str (flds ! 5),
                runtime_minutes = py_str (flds ! 7)\<rparr>"
  using assms by (auto simp add: Movie_init_def nth_field_def)

lemma extract_movies_loop_spec:
  assumes "\<forall>flds \<in> set rows. 9 \<le> length flds"
    and "distinct (map (\<lambda>flds. py_str (flds ! 0)) rows)"
  shows "\<exists>movies. extract_movies_loop rows acc = Inr movies
           \<and> (\<forall>k. k \<notin> (\<lambda>flds. py_str (flds ! 0)) ` set rows \<longrightarrow> map_of movies k = map_of acc k)
           \<and> (\<forall>flds \<in> set rows.
                 map_of movies (py_str (flds ! 0)) =
                   (if title_is_valid flds = Inr True
                    then (case Movie_init flds of Inr m \<Rightarrow> Some m | Inl e \<Rightarrow> None)
                    else map_of acc (py_str (flds ! 0))))"
  using assms
proof (induction rows arbitrary: acc)
  case Nil
  then show ?case by simp
next
  case (Cons r rows)
  let ?key = "\<lambda>flds. py_str (flds ! 0)"
  have len: "9 \<le> length r" using Cons.prems(1) by simp
  have fresh: "?key r \<notin> ?key ` set rows" using Cons.prems(2) by auto
  have rest: "\<forall>flds \<in> set rows. 9 \<le> length flds" "distinct (map ?key rows)"
    using Cons.prems by simp_all
  obtain b where valid: "title_is_valid r = Inr b"
    using title_is_valid_total [OF len] by blast
  obtain m where init: "Movie_init r = Inr m"
    using Movie_init_total [of r] len by simp
  have f0: "nth_field r 0 = Inr (r ! 0)" using len by (auto simp add: nth_field_def)
  define acc' where "acc' = (if b then AList.update (?key r) m acc else acc)"
  have step: "extract_movies_loop (r # rows) acc = extract_movies_loop rows acc'"
    by (cases b) (simp_all add: valid init f0 acc'_def)
  from Cons.IH [OF rest, of acc'] obtain movies where
    res: "extract_movies_loop rows acc' = Inr movies"
    and out: "\<forall>k. k \<notin> ?key ` set rows \<longrightarrow> map_of movies k = map_of acc' k"
    and inn: "\<forall>flds \<in> set rows. map_of movies (?key flds) =
                (if title_is_valid flds = Inr True
                 then (case Movie_init flds of Inr m \<Rightarrow> Some m | Inl e \<Rightarrow> None)
                 else map_of acc' (?key flds))"
    by blast
  have acc'_other: "map_of acc' k = map_of acc k" if "k \<noteq> ?key r" for k
    using that by (simp add: acc'_def update_conv')
  have acc'_key: "map_of acc' (?key r) = (if b then Some m else map_of acc (?key r))"
    by (simp add: acc'_def update_conv')
  have "\<forall>k. k \<notin> ?key ` set (r # rows) \<longrightarrow> map_of movies k = map_of acc k"
    using out acc'_other by simp
  moreover have "map_of movies (?key r) =
      (if title_is_valid r = Inr True
       then (case Movie_init r of Inr m \<Rightarrow> Some m | Inl e \<Rightarrow> None)
       else map_of acc (?key r))"
    using out fresh acc'_key by (simp add: valid init)
  moreover have "map_of movies (?key flds) =
      (if title_is_valid flds = Inr True
       then (case Movie_init flds of Inr m \<Rightarrow> Some m | Inl e \<Rightarrow> None)
       else map_of acc (?key flds))" if "flds \<in> set rows" for flds
  proof -
    have "?key flds \<noteq> ?key r" using that fresh by (metis (mono_tags, lifting) image_eqI)
    then show ?thesis using inn that acc'_other by simp
  qed
  ultimately show ?case using step res by simp
qed

lemma keys_update: "fst ` set (AList.update k v al) = insert k (fst ` set al)"
  by (induction al) auto

lemma extract_movies_loop_keys:
  assumes "\<forall>flds \<in> set rows. 9 \<le> length flds"
  shows "\<exists>movies. extract_movies_loop rows acc = Inr movies
           \<and> fst ` set movies =
               fst ` set acc \<union> (\<lambda>flds. py_str (flds ! 0)) `
                 {flds \<in> set rows. title_is_valid flds = Inr True}"
  using assms
proof (induction rows arbitrary: acc)
  case Nil
  then show ?case by simp
next
  case (Cons r rows)
  have len: "9 \<le> length r" using Cons.prems by simp
  obtain b where valid: "title_is_valid r = Inr b"
    using title_is_valid_total [OF len] by blast
  obtain m where init: "Movie_init r = Inr m"
    using Movie_init_total [of r] len by simp
  have f0: "nth_field r 0 = Inr (r ! 0)" using len by (auto simp add: nth_field_def)
  define acc' where "acc' = (if b then AList.update (py_str (r ! 0)) m acc else acc)"
  have step: "extract_movies_loop (r # rows) acc = extract_movies_loop rows acc'"
    by (cases b) (simp_all add: valid init f0 acc'_def)
  have keys: "fst ` set acc' = fst ` set acc \<union> (if b then {py_str (r ! 0)} else {})"
    by (simp add: acc'_def keys_update)
  from Cons.IH [of acc'] Cons.prems obtain movies where
    res: "extract_movies_loop rows acc' = Inr movies"
    and dom: "fst ` set movies = fst ` set acc' \<union> (\<lambda>flds. py_str (flds ! 0)) `
                 {flds \<in> set rows. title_is_valid flds = Inr True}"
    by auto
  show ?case
    unfolding step using res dom keys valid by auto
qed

text \<open>
  Claim C1. Take the rows of a snapshot of \<open>title.basics\<close>, each with its nine
  columns. Then the Movie extractor returns a mapping, and for every row: the row is
  accepted exactly when its type field is \<open>movie\<close>, its adult flag is not set (the
  field is not \<open>1\<close>), its year field is not null and the set of its comma-separated
  genres does not contain \<open>Documentary\<close>. The keys of the mapping are exactly the
  identifiers of the accepted rows. When no two rows share an identifier, as in a
  snapshot, every accepted row is in the mapping under its identifier, as the Movie
  built from it, and the identifier of a rejected row is no key of the mapping.
\<close>

theorem extract_movies_accepts_iff:
  assumes "\<forall>flds \<in> set rows. 9 \<le> length flds"
  shows "\<exists>movies. extract_movies rows = Inr movies
           \<and> (\<forall>flds \<in> set rows.
                 title_is_valid flds =
                   Inr (flds ! 1 = Some ''movie'' \<and> flds ! 4 \<noteq> Some ''1''
                        \<and> flds ! 5 \<noteq> None
                        \<and> ''Documentary'' \<notin> set (str_split CHR '','' (py_str (flds ! 8)))))
           \<and> fst ` set movies =
               (\<lambda>flds. py_str (flds ! 0)) ` {flds \<in> set rows. title_is_valid flds = Inr True}
           \<and> (distinct (map (\<lambda>flds. py_str (flds ! 0)) rows) \<longrightarrow>
                (\<forall>flds \<in> set rows.
                   (title_is_valid flds = Inr True \<longrightarrow>
                      (\<exists>movie. Movie_init flds = Inr movie
                         \<and> map_of movies (py_str (flds ! 0)) = Some movie))
                   \<and> (title_is_valid flds = Inr False \<longrightarrow>
                        map_of movies (py_str (flds ! 0)) = None)))"
proof -
  let ?key = "\<lambda>flds. py_str (flds ! 0)"
  from extract_movies_loop_keys [OF assms, of "[]"] obtain movies where
    res: "extract_movies_loop rows [] = Inr movies"
    and keys: "fst ` set movies = ?key ` {flds \<in> set rows. title_is_valid flds = Inr True}"
    by auto
  have valid: "\<forall>flds \<in> set rows.
                 title_is_valid flds =
                   Inr (flds ! 1 = Some ''movie'' \<and> flds ! 4 \<noteq> Some ''1''
                        \<and> flds ! 5 \<noteq> None
                        \<and> ''Documentary'' \<notin> set (str_split CHR '','' (py_str (flds ! 8))))"
    using assms title_is_valid_total by blast
  have each: "(title_is_valid flds = Inr True \<longrightarrow>
                      (\<exists>movie. Movie_init flds = Inr movie
                         \<and> map_of movies (py_str (flds ! 0)) = Some movie))
                 \<and> (title_is_valid flds = Inr False \<longrightarrow>
                      map_of movies (py_str (flds ! 0)) = None)"
    if d: "distinct (map ?key rows)" and mem: "flds \<in> set rows" for flds
  proof -
    from extract_movies_loop_spec [OF assms d, of "[]"] res
    have inn: "\<forall>flds \<in> set rows. map_of movies (?key flds) =
                (if title_is_valid flds = Inr True
                 then (case Movie_init flds of Inr m \<Rightarrow> Some m | Inl e \<Rightarrow> None)
                 else map_of [] (?key flds))"
      by auto
    have len: "9 \<le> length flds" using assms mem by simp
    obtain m where init: "Movie_init flds = Inr m"
      using Movie_init_total [of flds] len by simp
    show ?thesis
      using inn mem init by auto
  qed
  show ?thesis
    unfolding extract_movies_def using res valid keys each by blast
qed

theorem extract_movies_accepts_iff_witness:
  "list_all (\<lambda>flds. 9 \<le> length flds) example_title_rows
   \<and> distinct (map (\<lambda>flds. py_str (flds ! 0)) example_title_rows)
   \<and> (\<exists>movies. extract_movies example_title_rows = Inr movies
          \<and> fst ` set movies = {''tt0000001''}
          \<and> map_of movies ''tt0000001'' \<noteq> None
          \<and> map_of movies ''tt0000002'' = None)"
proof -
  let ?a = "[Some ''tt0000001'', Some ''movie'', Some ''Alien'', Some ''Alien'', Some ''0'',
       Some ''1979'', None, Some ''117'', Some ''Horror,Sci-Fi'']"
  let ?b = "[Some ''tt0000002'', Some ''movie'', Some ''Shoah'', Some ''Shoah'', Some ''0'',
       Some ''1985'', None, Some ''566'', Some ''Documentary,History'']"
  have h1: "\<forall>flds \<in> set example_title_rows. 9 \<le> length flds"
    by (simp add: example_title_rows_def)
  have h2: "distinct (map (\<lambda>flds. py_str (flds ! 0)) example_title_rows)"
    by (simp add: example_title_rows_def py_str_def)
  have va: "title_is_valid ?a = Inr True"
    by (simp add: title_is_valid_def nth_field_def py_str_def)
  have vb: "title_is_valid ?b = Inr False"
    by (simp add: title_is_valid_def nth_field_def py_str_def)
  have acc: "{flds \<in> set example_title_rows. title_is_valid flds = Inr True} = {?a}"
    using va vb by (auto simp add: example_title_rows_def)
  from extract_movies_accepts_iff [OF h1] h2 obtain movies where
    res: "extract_movies example_title_rows = Inr movies"
    and keys: "fst ` set movies = (\<lambda>flds. py_str (flds ! 0)) `
                 {flds \<in> set example_title_rows. title_is_valid flds = Inr True}"
    and each: "\<forall>flds \<in> set example_title_rows.
                 (title_is_valid flds = Inr True \<longrightarrow>
                      (\<exists>movie. Movie_init flds = Inr movie
                         \<and> map_of movies (py_str (flds ! 0)) = Some movie))
                 \<and> (title_is_valid flds = Inr False \<longrightarrow>
                      map_of movies (py_str (flds ! 0)) = None)"
    by blast
  have k: "fst ` set movies = {''tt0000001''}"
    unfolding keys acc by (simp add: py_str_def)
  have "?a \<in> set example_title_rows" by (simp add: example_title_rows_def)
  with each have a: "title_is_valid ?a = Inr True \<longrightarrow>
      (\<exists>movie. Movie_init ?a = Inr movie \<and> map_of movies (py_str (?a ! 0)) = Some movie)"
    by blast
  have "?b \<in> set example_title_rows" by (simp add: example_title_rows_def)
  with each have b: "title_is_valid ?b = Inr False \<longrightarrow> map_of movies (py_str (?b ! 0)) = None"
    by blast
  have ma: "map_of movies ''tt0000001'' \<noteq> None" using a va by (auto simp add: py_str_def)
  have mb: "map_of movies ''tt0000002'' = None" using b vb by (simp add: py_str_def)
  have l: "list_all (\<lambda>flds. 9 \<le> length flds) example_title_rows"
    using h1 by (simp add: list_all_iff)
  show ?thesis using l h2 res k ma mb by blast
qed

section \<open>The Person extractor\<close>

lemma known_for_loop_iff:
  "known_for_loop ids valid \<longleftrightarrow> (\<exists>title_id \<in> set ids. title_id \<in> valid)"
  by (induction ids) auto

lemma Person_init_total:
  assumes "6 \<le> length flds"
  shows "\<exists>person. Person_init flds = Inr person"
  using assms by (auto simp add: Person_init_def nth_field_def Let_def)

lemma extract_people_loop_keys:
  assumes "\<forall>flds \<in> set rows. 6 \<le> length flds"
  shows "\<exists>people. extract_people_loop valid rows acc = Inr people
           \<and> fst ` set people =
               fst ` set acc \<union> (\<lambda>flds. py_str (flds ! 0)) `
                 {flds \<in> set rows. has_valid_known_for_title_ids (flds ! 5) valid}"
  using assms
proof (induction rows arbitrary: acc)
  case Nil
  then show ?case by simp
next
  case (Cons r rows)
  have len: "6 \<le> length r" using Cons.prems by simp
  have f5: "nth_field r 5 = Inr (r ! 5)" and f0: "nth_field r 0 = Inr (r ! 0)"
    using len by (auto simp add: nth_field_def)
  obtain p where init: "Person_init r = Inr p"
    using Person_init_total [OF len] by blast
  define acc' where "acc' = (if has_valid_known_for_title_ids (r ! 5) valid
                             then AList.update (py_str (r ! 0)) p acc else acc)"
  have step: "extract_people_loop valid (r # rows) acc = extract_people_loop valid rows acc'"
    by (simp add: f5 f0 init acc'_def)
  have keys: "fst ` set acc' = fst ` set acc \<union>
                (if has_valid_known_for_title_ids (r ! 5) valid then {py_str (r ! 0)} else {})"
    by (simp add: acc'_def keys_update)
  from Cons.IH [of acc'] Cons.prems obtain people where
    res: "extract_people_loop valid rows acc' = Inr people"
    and dom: "fst ` set people = fst ` set acc' \<union> (\<lambda>flds. py_str (flds ! 0)) `
                 {flds \<in> set rows. has_valid_known_for_title_ids (flds ! 5) valid}"
    by auto
  show ?case
    unfolding step using res dom keys by auto
qed

text \<open>
  Claim C2, as the specification states it, fails for an empty "known for" field. The
  empty string splits into the list of the one identifier \<open>''\<close>, so the field passes
  the test when the empty string is an accepted Movie identifier. The Movie extractor
  accepts a title row whose identifier field is empty, under the key \<open>''\<close>; with that
  key in the accepted set, the Person extractor accepts a row whose "known for" field
  is empty.
\<close>

theorem extract_people_empty_known_for_counterexample:
  "extract_movies
     [[Some '''', Some ''movie'', Some ''Untitled'', Some ''Untitled'', Some ''0'',
       Some ''1979'', None, Some ''90'', Some ''Drama'']]
     = Inr [('''', \<lparr>Movie.imdb_id = '''', Movie.title = ''Untitled'', original_title = True,
                    Movie.year = ''1979'', runtime_minutes = ''90''\<rparr>)]
   \<and> has_valid_known_for_title_ids (Some '''') {''''}
   \<and> extract_people {''''}
        [[Some ''nm0000002'', Some ''Jane Doe'', Some ''1950'', None, Some ''actor'', Some '''']]
     = Inr [(''nm0000002'',
             \<lparr>Person.imdb_id = ''nm0000002'', full_name = ''Jane Doe'',
              last_name = Some ''Doe'', first_name = Some ''Jane'', birth_year = Some ''1950'',
              death_year = None, primary_profession = Some ''actor'',
              known_for_title_ids = Some ''''\<rparr>)]"
proof -
  have movies: "extract_movies
     [[Some '''', Some ''movie'', Some ''Untitled'', Some ''Untitled'', Some ''0'',
       Some ''1979'', None, Some ''90'', Some ''Drama'']]
     = Inr [('''', \<lparr>Movie.imdb_id = '''', Movie.title = ''Untitled'', original_title = True,
                    Movie.year = ''1979'', runtime_minutes = ''90''\<rparr>)]"
    by (simp add: extract_movies_def title_is_valid_def Movie_init_def nth_field_def
          py_str_def py_bool_def)
  have test: "has_valid_known_for_title_ids (Some '''') {''''}"
    by (simp add: has_valid_known_for_title_ids_def)
  have split: "NAME_REGEX_split ''Jane Doe'' = ['''', ''Jane'', ''Doe'', '''']"
    by (simp add: NAME_REGEX_split_def NAME_REGEX_match_def is_space_def)
  have people: "extract_people {''''}
        [[Some ''nm0000002'', Some ''Jane Doe'', Some ''1950'', None, Some ''actor'', Some '''']]
     = Inr [(''nm0000002'',
             \<lparr>Person.imdb_id = ''nm0000002'', full_name = ''Jane Doe'',
              last_name = Some ''Doe'', first_name = Some ''Jane'', birth_year = Some ''1950'',
              death_year = None, primary_profession = Some ''actor'',
              known_for_title_ids = Some ''''\<rparr>)]"
    by (simp add: extract_people_def nth_field_def test Person_init_def py_str_def split)
  show ?thesis
    using movies test people by (intro conjI)
qed

text \<open>
  Claim C2, amended. Take Person rows with the six columns of \<open>name.basics\<close>. The
  acceptance test holds for a "known for" field exactly when the field is not null and
  at least one identifier of its comma-separated list is in the accepted Movie
  identifier set; a null field is always rejected; an empty field is read as the list
  of the one identifier \<open>''\<close>, so it is rejected exactly when the empty string is no
  accepted Movie identifier; and the Person extractor returns a mapping whose keys are
  exactly the identifiers of the rows that pass the test.
\<close>

theorem extract_people_accepts_iff:
  assumes "\<forall>flds \<in> set rows. 6 \<le> length flds"
  shows "(\<forall>known_for.
            has_valid_known_for_title_ids known_for valid_title_ids \<longleftrightarrow>
              (\<exists>s. known_for = Some s
                 \<and> (\<exists>title_id \<in> set (str_split CHR '','' s). title_id \<in> valid_title_ids)))
         \<and> \<not> has_valid_known_for_title_ids None valid_title_ids
         \<and> (has_valid_known_for_title_ids (Some '''') valid_title_ids \<longleftrightarrow>
               '''' \<in> valid_title_ids)
         \<and> (\<exists>people. extract_people valid_title_ids rows = Inr people
               \<and> fst ` set people = (\<lambda>flds. py_str (flds ! 0)) `
                    {flds \<in> set rows. has_valid_known_for_title_ids (flds ! 5) valid_title_ids})"
proof -
  have iff: "has_valid_known_for_title_ids known_for valid_title_ids \<longleftrightarrow>
              (\<exists>s. known_for = Some s
                 \<and> (\<exists>title_id \<in> set (str_split CHR '','' s). title_id \<in> valid_title_ids))"
    for known_for
    by (cases known_for) (simp_all add: has_valid_known_for_title_ids_def known_for_loop_iff)
  have null: "\<not> has_valid_known_for_title_ids None valid_title_ids"
    by (simp add: has_valid_known_for_title_ids_def)
  have empty: "has_valid_known_for_title_ids (Some '''') valid_title_ids \<longleftrightarrow>
                 '''' \<in> valid_title_ids"
    by (simp add: has_valid_known_for_title_ids_def)
  from extract_people_loop_keys [OF assms, of valid_title_ids "[]"]
  have ex: "\<exists>people. extract_people valid_title_ids rows = Inr people
               \<and> fst ` set people = (\<lambda>flds. py_str (flds ! 0)) `
                    {flds \<in> set rows. has_valid_known_for_title_ids (flds ! 5) valid_title_ids}"
    by (simp add: extract_people_def)
  show ?thesis using iff null empty ex by blast
qed

theorem extract_people_accepts_iff_witness:
  "list_all (\<lambda>flds. 6 \<le> length flds)
     [name_row ''Sigourney Weaver'',
      [Some ''nm0000002'', Some ''Jane Doe'', Some ''1950'', None, Some ''actor'', Some '''']]
   \<and> \<not> has_valid_known_for_title_ids (Some '''') {''tt0000001''}
   \<and> \<not> has_valid_known_for_title_ids None {''tt0000001''}
   \<and> has_valid_known_for_title_ids (Some ''tt0000009,tt0000001'') {''tt0000001''}
   \<and> (\<exists>people.
         extract_people {''tt0000001''}
           [name_row ''Sigourney Weaver'',
            [Some ''nm0000002'', Some ''Jane Doe'', Some ''1950'', None, Some ''actor'',
             Some '''']] = Inr people
         \<and> fst ` set people = {''nm0000001''})"
proof -
  let ?jane = "[Some ''nm0000002'', Some ''Jane Doe'', Some ''1950'', None, Some ''actor'',
                Some '''']"
  let ?rows = "[name_row ''Sigourney Weaver'', ?jane]"
  have h1: "\<forall>flds \<in> set ?rows. 6 \<le> length flds"
    by (simp add: name_row_def)
  have ok: "has_valid_known_for_title_ids (name_row ''Sigourney Weaver'' ! 5) {''tt0000001''}"
    by (simp add: name_row_def has_valid_known_for_title_ids_def)
  have no: "\<not> has_valid_known_for_title_ids (?jane ! 5) {''tt0000001''}"
    by (simp add: has_valid_known_for_title_ids_def)
  have key: "py_str (name_row ''Sigourney Weaver'' ! 0) = ''nm0000001''"
    by (simp add: name_row_def py_str_def)
  have acc: "{flds \<in> set ?rows. has_valid_known_for_title_ids (flds ! 5) {''tt0000001''}}
             = {name_row ''Sigourney Weaver''}"
    using ok no by auto
  note claim = extract_people_accepts_iff [OF h1, of "{''tt0000001''}"]
  from claim obtain people where
    res: "extract_people {''tt0000001''} ?rows = Inr people"
    and keys: "fst ` set people = (\<lambda>flds. py_str (flds ! 0)) `
                 {flds \<in> set ?rows. has_valid_known_for_title_ids (flds ! 5) {''tt0000001''}}"
    by blast
  from claim have "has_valid_known_for_title_ids (Some '''') {''tt0000001''} \<longleftrightarrow>
                     '''' \<in> {''tt0000001''}"
    by blast
  then have empty: "\<not> has_valid_known_for_title_ids (Some '''') {''tt0000001''}"
    by simp
  from claim have null: "\<not> has_valid_known_for_title_ids None {''tt0000001''}"
    by blast
  from claim have iff: "has_valid_known_for_title_ids (Some ''tt0000009,tt0000001'')
                          {''tt0000001''} \<longleftrightarrow>
      (\<exists>s. Some ''tt0000009,tt0000001'' = Some s
         \<and> (\<exists>title_id \<in> set (str_split CHR '','' s). title_id \<in> {''tt0000001''}))"
    by blast
  have two: "has_valid_known_for_title_ids (Some ''tt0000009,tt0000001'') {''tt0000001''}"
    unfolding iff by simp
  have k: "fst ` set people = {''nm0000001''}"
    unfolding keys acc by (simp add: key)
  have l: "list_all (\<lambda>flds. 6 \<le> length flds) ?rows"
    using h1 by (simp only: list_all_iff)
  show ?thesis
    using l empty null two res k by - (intro conjI exI [of _ people]; assumption)
qed
section \<open>The name split of a Person\<close>

lemma NAME_REGEX_split_no_space:
  assumes "\<forall>c \<in> set s. \<not> is_space c"
  shows "NAME_REGEX_split s = [s]"
proof -
  have dw: "dropWhile (\<lambda>c. \<not> is_space c) s = []" using assms by simp
  show ?thesis unfolding NAME_REGEX_split_def NAME_REGEX_match_def Let_def dw by simp
qed

lemma NAME_REGEX_split_space:
  assumes "\<forall>x \<in> set a. \<not> is_space x" and "is_space c" and "CHR 0x0A \<notin> set b"
  shows "NAME_REGEX_split (a @ c # b) = ['''', a, b, '''']"
proof -
  have t: "takeWhile (\<lambda>c. \<not> is_space c) (a @ c # b) = a"
    using assms(1,2) by (simp add: takeWhile_append2)
  have d: "dropWhile (\<lambda>c. \<not> is_space c) (a @ c # b) = c # b"
    using assms(1,2) by (simp add: dropWhile_append2)
  have t2: "takeWhile (\<lambda>c. c \<noteq> CHR 0x0A) b = b"
    using assms(3) by (auto simp add: takeWhile_eq_all_conv)
  have d2: "dropWhile (\<lambda>c. c \<noteq> CHR 0x0A) b = []"
    using assms(3) by auto
  show ?thesis
    unfolding NAME_REGEX_split_def NAME_REGEX_match_def Let_def t d
    using assms(3) by (simp add: t2 d2)
qed

text \<open>
  Claim C4, as the specification states it, fails at the name \<open>Madonna\<close>: the claim
  gives the first name \<open>""\<close> and the last name \<open>Madonna\<close>, the code gives the first
  name \<open>Madonna\<close> and the last name \<open>""\<close>.
\<close>

theorem Person_init_Madonna_counterexample:
  "Person_init (name_row ''Madonna'') =
     Inr \<lparr>Person.imdb_id = ''nm0000001'', full_name = ''Madonna'', last_name = Some '''',
          first_name = Some ''Madonna'', birth_year = Some ''1950'', death_year = None,
          primary_profession = Some ''actor'', known_for_title_ids = Some ''tt0000001''\<rparr>
   \<and> first_name (projr (Person_init (name_row ''Madonna''))) \<noteq> Some ''''
   \<and> last_name (projr (Person_init (name_row ''Madonna''))) \<noteq> Some ''Madonna''"
  by (simp add: Person_init_def name_row_def nth_field_def py_str_def NAME_REGEX_split_def
        NAME_REGEX_match_def is_space_def)

text \<open>
  Claim C4, amended. For every Person row with its six columns and a name that is not
  null: when the name holds no whitespace, the first name is the whole name and the
  last name is the empty string; when the name is a whitespace-free prefix, one
  whitespace character and a rest without line feed, the first name is the prefix and
  the last name is the rest. So \<open>John Smith\<close> gives \<open>John\<close> and \<open>Smith\<close>,
  \<open>Mary Jane Watson\<close> gives \<open>Mary\<close> and \<open>Jane Watson\<close>, and \<open>Madonna\<close> gives the
  first name \<open>Madonna\<close> and the last name \<open>""\<close>.
\<close>

theorem Person_init_name_split:
  assumes "6 \<le> length flds" and "flds ! 1 = Some name"
  shows "\<exists>person. Person_init flds = Inr person
           \<and> full_name person = name
           \<and> ((\<forall>c \<in> set name. \<not> is_space c) \<longrightarrow>
                 first_name person = Some name \<and> last_name person = Some '''')
           \<and> (\<forall>first c rest.
                 name = first @ c # rest \<and> (\<forall>x \<in> set first. \<not> is_space x) \<and> is_space c
                   \<and> CHR 0x0A \<notin> set rest \<longrightarrow>
                 first_name person = Some first \<and> last_name person = Some rest)"
proof -
  define split where "split = NAME_REGEX_split name"
  define match where "match = (if length split = 1 then ['''', split ! 0, '''', ''''] else split)"
  define person where "person =
    \<lparr>Person.imdb_id = py_str (flds ! 0), full_name = name, last_name = Some (match ! 2),
     first_name = Some (match ! 1), birth_year = flds ! 2, death_year = flds ! 3,
     primary_profession = flds ! 4, known_for_title_ids = flds ! 5\<rparr>"
  have init: "Person_init flds = Inr person"
    using assms
    by (auto simp add: Person_init_def nth_field_def py_str_def Let_def person_def match_def
          split_def)
  have mono: "first_name person = Some name \<and> last_name person = Some ''''"
    if "\<forall>c \<in> set name. \<not> is_space c"
    using NAME_REGEX_split_no_space [OF that] by (simp add: person_def match_def split_def)
  have two: "first_name person = Some first \<and> last_name person = Some rest"
    if "name = first @ c # rest" "\<forall>x \<in> set first. \<not> is_space x" "is_space c"
      "CHR 0x0A \<notin> set rest" for first c rest
    using NAME_REGEX_split_space [OF that(2,3,4)] that(1)
    by (simp add: person_def match_def split_def)
  have full: "full_name person = name" by (simp add: person_def)
  show ?thesis
    using init mono two full by blast
qed

theorem Person_init_name_split_witness:
  "6 \<le> length (name_row ''Mary Jane Watson'')
   \<and> name_row ''Mary Jane Watson'' ! 1 = Some ''Mary Jane Watson''
   \<and> (\<exists>person. Person_init (name_row ''Mary Jane Watson'') = Inr person
          \<and> first_name person = Some ''Mary'' \<and> last_name person = Some ''Jane Watson'')"
proof -
  have h1: "6 \<le> length (name_row ''Mary Jane Watson'')" by (simp add: name_row_def)
  have h2: "name_row ''Mary Jane Watson'' ! 1 = Some ''Mary Jane Watson''"
    by (simp add: name_row_def)
  from Person_init_name_split [OF h1 h2] obtain person where
    init: "Person_init (name_row ''Mary Jane Watson'') = Inr person"
    and two: "\<forall>first c rest.
                 ''Mary Jane Watson'' = first @ c # rest \<and> (\<forall>x \<in> set first. \<not> is_space x)
                   \<and> is_space c \<and> CHR 0x0A \<notin> set rest \<longrightarrow>
                 first_name person = Some first \<and> last_name person = Some rest"
    by blast
  have "''Mary Jane Watson'' = ''Mary'' @ CHR '' '' # ''Jane Watson''
          \<and> (\<forall>x \<in> set ''Mary''. \<not> is_space x) \<and> is_space CHR '' ''
          \<and> CHR 0x0A \<notin> set ''Jane Watson''"
    by (simp add: is_space_def)
  with two have "first_name person = Some ''Mary'' \<and> last_name person = Some ''Jane Watson''"
    by blast
  then show ?thesis using h1 h2 init by blast
qed

section \<open>The AkaTitle extractor\<close>

lemma AkaTitle_init_total:
  assumes "8 \<le> length flds" and "py_int (py_str (flds ! 1)) = Some n"
  shows "AkaTitle_init flds =
           Inr \<lparr>movie_imdb_id = py_str (flds ! 0), AkaTitle.sequence = n,
                AkaTitle.title = py_str (flds ! 2), region = flds ! 3, language = flds ! 4,
                types = flds ! 5, attributes = flds ! 6, is_original_title = flds ! 7\<rparr>"
proof -
  have len: "i < 8 \<Longrightarrow> nth_field flds i = Inr (flds ! i)" for i
    using assms(1) by (simp add: nth_field_def)
  show ?thesis
    unfolding AkaTitle_init_def using assms(2) by (simp add: len)
qed

lemma in_title_ids_iff: "in_title_ids f0 accepted_ids \<longleftrightarrow> f0 \<in> Some ` accepted_ids"
  by (cases f0) (auto simp add: in_title_ids_def)

lemma extract_aka_titles_loop_spec:
  assumes "\<forall>flds \<in> set rows. 8 \<le> length flds"
    and "\<forall>flds \<in> set rows. in_title_ids (flds ! 0) ids \<longrightarrow> py_int (py_str (flds ! 1)) \<noteq> None"
  shows "\<exists>akas. extract_aka_titles_loop ids rows acc = Inr (acc @ akas)
           \<and> map Inr akas = map AkaTitle_init (filter (\<lambda>flds. in_title_ids (flds ! 0) ids) rows)"
  using assms
proof (induction rows arbitrary: acc)
  case Nil
  then show ?case by simp
next
  case (Cons r rows)
  have len: "8 \<le> length r" using Cons.prems(1) by simp
  have f0: "nth_field r 0 = Inr (r ! 0)" using len by (auto simp add: nth_field_def)
  have rest: "\<forall>flds \<in> set rows. 8 \<le> length flds"
    "\<forall>flds \<in> set rows. in_title_ids (flds ! 0) ids \<longrightarrow> py_int (py_str (flds ! 1)) \<noteq> None"
    using Cons.prems by simp_all
  show ?case
  proof (cases "in_title_ids (r ! 0) ids")
    case False
    from Cons.IH [OF rest, of acc] obtain akas where
      "extract_aka_titles_loop ids rows acc = Inr (acc @ akas)"
      "map Inr akas = map AkaTitle_init (filter (\<lambda>flds. in_title_ids (flds ! 0) ids) rows)"
      by blast
    then show ?thesis using False f0 by simp
  next
    case True
    then obtain n where n: "py_int (py_str (r ! 1)) = Some n"
      using Cons.prems(2) by auto
    obtain a where init: "AkaTitle_init r = Inr a"
      using AkaTitle_init_total [OF len n] by blast
    from Cons.IH [OF rest, of "acc @ [a]"] obtain akas where
      res: "extract_aka_titles_loop ids rows (acc @ [a]) = Inr ((acc @ [a]) @ akas)"
      and eq: "map Inr akas =
                 map AkaTitle_init (filter (\<lambda>flds. in_title_ids (flds ! 0) ids) rows)"
      by blast
    have "extract_aka_titles_loop ids (r # rows) acc = Inr (acc @ (a # akas))"
      using True f0 init res by simp
    moreover have "map Inr (a # akas) =
        map AkaTitle_init (filter (\<lambda>flds. in_title_ids (flds ! 0) ids) (r # rows))"
      using True init eq by simp
    ultimately show ?thesis by blast
  qed
qed

lemma map_Inr_transfer:
  assumes "map Inr ys = map f xs"
    and "\<And>x y. x \<in> set xs \<Longrightarrow> f x = Inr y \<Longrightarrow> g y = h x"
  shows "map g ys = map h xs"
  using assms
proof (induction xs arbitrary: ys)
  case Nil
  then show ?case by simp
next
  case (Cons x xs)
  then obtain y ys' where ys: "ys = y # ys'" by (cases ys) auto
  with Cons.prems(1) have hd: "f x = Inr y" and tl: "map Inr ys' = map f xs" by auto
  have "g y = h x" using Cons.prems(2) [of x y] hd by simp
  moreover have "map g ys' = map h xs"
    using Cons.IH [OF tl] Cons.prems(2) by auto
  ultimately show ?case using ys by simp
qed

text \<open>
  Claim C3. Take AkaTitle rows with the eight columns of \<open>title.akas\<close>, where the
  sequence field of every row of an accepted movie reads as a number. Then the
  extractor returns a list; a row is accepted exactly when its owning movie identifier
  is in the accepted Movie identifier set; the list holds the AkaTitle of each accepted
  row and nothing else, in the order the rows were read; and each of them carries the
  movie identifier and the sequence number of its own row, as read from the row.
\<close>

theorem extract_aka_titles_accepts_iff:
  assumes "\<forall>flds \<in> set rows. 8 \<le> length flds"
    and "\<forall>flds \<in> set rows.
           in_title_ids (flds ! 0) accepted_ids \<longrightarrow> py_int (py_str (flds ! 1)) \<noteq> None"
  shows "\<exists>aka_titles. extract_aka_titles accepted_ids rows = Inr aka_titles
           \<and> (\<forall>flds. in_title_ids (flds ! 0) accepted_ids \<longleftrightarrow> flds ! 0 \<in> Some ` accepted_ids)
           \<and> map Inr aka_titles =
               map AkaTitle_init (filter (\<lambda>flds. in_title_ids (flds ! 0) accepted_ids) rows)
           \<and> map (\<lambda>a. (Some (movie_imdb_id a), Some (AkaTitle.sequence a))) aka_titles =
               map (\<lambda>flds. (flds ! 0, py_int (py_str (flds ! 1))))
                 (filter (\<lambda>flds. in_title_ids (flds ! 0) accepted_ids) rows)"
proof -
  let ?accepted = "filter (\<lambda>flds. in_title_ids (flds ! 0) accepted_ids) rows"
  from extract_aka_titles_loop_spec [OF assms, of "[]"] obtain akas where
    res: "extract_aka_titles accepted_ids rows = Inr akas"
    and eq: "map Inr akas = map AkaTitle_init ?accepted"
    by (auto simp add: extract_aka_titles_def)
  have carried: "(Some (movie_imdb_id a), Some (AkaTitle.sequence a)) = (flds ! 0, py_int (py_str (flds ! 1)))"
    if mem: "flds \<in> set ?accepted" and init: "AkaTitle_init flds = Inr a" for flds a
  proof -
    have len: "8 \<le> length flds" using assms(1) mem by simp
    have acc: "in_title_ids (flds ! 0) accepted_ids" using mem by simp
    then obtain i where i: "flds ! 0 = Some i" by (auto simp add: in_title_ids_iff)
    obtain n where n: "py_int (py_str (flds ! 1)) = Some n"
      using assms(2) mem acc by auto
    have "Inr a = Inr \<lparr>movie_imdb_id = py_str (flds ! 0), AkaTitle.sequence = n,
                AkaTitle.title = py_str (flds ! 2), region = flds ! 3, language = flds ! 4,
                types = flds ! 5, attributes = flds ! 6, is_original_title = flds ! 7\<rparr>"
      using AkaTitle_init_total [OF len n] init by simp
    then have "movie_imdb_id a = i" and "AkaTitle.sequence a = n"
      by (simp_all add: i py_str_def)
    then show ?thesis using i n by simp
  qed
  have seqs: "map (\<lambda>a. (Some (movie_imdb_id a), Some (AkaTitle.sequence a))) akas =
          map (\<lambda>flds. (flds ! 0, py_int (py_str (flds ! 1)))) ?accepted"
    by (rule map_Inr_transfer [OF eq]) (rule carried)
  have iff: "\<forall>flds. in_title_ids (flds ! 0) accepted_ids \<longleftrightarrow> flds ! 0 \<in> Some ` accepted_ids"
    by (simp add: in_title_ids_iff)
  show ?thesis
    using res iff eq seqs by - (intro exI [of _ akas] conjI; assumption)
qed

theorem extract_aka_titles_accepts_iff_witness:
  "list_all (\<lambda>flds. 8 \<le> length flds)
     [aka_row ''tt0000001'' ''5'' ''Alien'', aka_row ''tt0000009'' ''1'' ''Nine'',
      aka_row ''tt0000001'' ''2'' ''Le huitieme passager'']
   \<and> list_all (\<lambda>flds. in_title_ids (flds ! 0) {''tt0000001''}
                          \<longrightarrow> py_int (py_str (flds ! 1)) \<noteq> None)
     [aka_row ''tt0000001'' ''5'' ''Alien'', aka_row ''tt0000009'' ''1'' ''Nine'',
      aka_row ''tt0000001'' ''2'' ''Le huitieme passager'']
   \<and> (\<exists>aka_titles.
          extract_aka_titles {''tt0000001''}
            [aka_row ''tt0000001'' ''5'' ''Alien'', aka_row ''tt0000009'' ''1'' ''Nine'',
             aka_row ''tt0000001'' ''2'' ''Le huitieme passager''] = Inr aka_titles
          \<and> map (\<lambda>a. (Some (movie_imdb_id a), Some (AkaTitle.sequence a))) aka_titles =
               [(Some ''tt0000001'', Some 5), (Some ''tt0000001'', Some 2)])"
proof -
  let ?rows = "[aka_row ''tt0000001'' ''5'' ''Alien'', aka_row ''tt0000009'' ''1'' ''Nine'',
                aka_row ''tt0000001'' ''2'' ''Le huitieme passager'']"
  have five: "py_int ''5'' = Some 5" and two: "py_int ''2'' = Some 2"
    by (simp_all add: py_int_def int_strip_def is_int_space_def is_digit_def digit_val_def)
  have h1: "\<forall>flds \<in> set ?rows. 8 \<le> length flds" by (simp add: aka_row_def)
  have h2: "\<forall>flds \<in> set ?rows.
              in_title_ids (flds ! 0) {''tt0000001''} \<longrightarrow> py_int (py_str (flds ! 1)) \<noteq> None"
    by (simp add: aka_row_def in_title_ids_def py_str_def five two)
  have acc: "filter (\<lambda>flds. in_title_ids (flds ! 0) {''tt0000001''}) ?rows =
               [aka_row ''tt0000001'' ''5'' ''Alien'',
                aka_row ''tt0000001'' ''2'' ''Le huitieme passager'']"
    by (simp add: aka_row_def in_title_ids_def)
  from extract_aka_titles_accepts_iff [OF h1 h2] obtain aka_titles where
    res: "extract_aka_titles {''tt0000001''} ?rows = Inr aka_titles"
    and seqs: "map (\<lambda>a. (Some (movie_imdb_id a), Some (AkaTitle.sequence a))) aka_titles =
                 map (\<lambda>flds. (flds ! 0, py_int (py_str (flds ! 1))))
                   (filter (\<lambda>flds. in_title_ids (flds ! 0) {''tt0000001''}) ?rows)"
    by blast
  have m: "map (\<lambda>a. (Some (movie_imdb_id a), Some (AkaTitle.sequence a))) aka_titles =
          [(Some ''tt0000001'', Some 5), (Some ''tt0000001'', Some 2)]"
    unfolding seqs acc by (simp add: aka_row_def py_str_def five two)
  have l1: "list_all (\<lambda>flds. 8 \<le> length flds) ?rows"
    using h1 by (simp only: list_all_iff)
  have l2: "list_all (\<lambda>flds. in_title_ids (flds ! 0) {''tt0000001''}
                             \<longrightarrow> py_int (py_str (flds ! 1)) \<noteq> None) ?rows"
    using h2 by (simp only: list_all_iff)
  show ?thesis
    using l1 l2 res m by - (intro conjI exI [of _ aka_titles]; assumption)
qed

section \<open>The command line of \<open>_curl\<close>\<close>





















section \<open>The fetcher's cache\<close>














section \<open>A download that fails\<close>




section \<open>Viewing records: save, then load\<close>

lemma save_writes:
  "yaml_files (snd (snd (save slugify v fs))) (fst (save slugify v fs)) = Some (to_yaml v)"
  by (simp add: save_def Let_def split: prod.splits)

lemma title_with_year_example: "title_with_year example_viewing = ''Alien (1979)''"
  by code_simp

lemma load_saved_object:
  assumes "yaml_files fs p = Some (to_yaml v)"
  shows "Viewing_load p fs = Inl (KeyError ''year'')"
  using assms by (simp add: Viewing_load_def yaml_get_def to_yaml_def)

text \<open>
  Claim C10. For every viewing, \<open>save\<close> writes at the path it returns a YAML document
  with exactly the keys \<open>sequence\<close>, \<open>date\<close>, \<open>imdb_id\<close>, \<open>title\<close>, \<open>venue\<close>, in
  this order; the value of \<open>title\<close> is the title followed by the year in parentheses
  (each as \<open>str\<close> writes it), and there is no key \<open>year\<close>. \<open>Viewing.load\<close> of that
  path raises \<open>KeyError\<close> for the key \<open>year\<close>: a load after a save never gives the
  viewing back.
\<close>

theorem save_then_load_fails:
  "yaml_files (snd (snd (save slugify v fs))) (fst (save slugify v fs)) = Some (to_yaml v)
   \<and> map fst (to_yaml v) = [''sequence'', ''date'', ''imdb_id'', ''title'', ''venue'']
   \<and> map_of (to_yaml v) ''title''
         = Some (YStr (str_value (Viewing.title v) @ '' ('' @ str_value (year v) @ '')''))
   \<and> map_of (to_yaml v) ''year'' = None
   \<and> Viewing_load (fst (save slugify v fs)) (snd (snd (save slugify v fs)))
        = Inl (KeyError ''year'')"
proof -
  have keys: "map fst (to_yaml v) = [''sequence'', ''date'', ''imdb_id'', ''title'', ''venue'']"
    by (simp add: to_yaml_def)
  have t: "map_of (to_yaml v) ''title''
             = Some (YStr (str_value (Viewing.title v) @ '' ('' @ str_value (year v) @ '')''))"
    by (simp add: to_yaml_def title_with_year_def)
  have y: "map_of (to_yaml v) ''year'' = None"
    by (simp add: to_yaml_def)
  show ?thesis
    using save_writes [of slugify v fs] load_saved_object [OF save_writes [of slugify v fs]]
      keys t y
    by simp
qed

section \<open>The rebuild of the viewings table\<close>

text \<open>
  Claim C9 against the code. On a database without tables,
  \<open>ViewingsTable.drop_and_create\<close> creates one table, named \<open>movies\<close>, whose first
  column refers to \<open>movies(id)\<close>; there is no table \<open>viewings\<close> afterwards, and the
  rebuild of the viewings index stops with the error that this table does not exist.
  On a database that holds a table \<open>movies\<close> already, the method fails since the
  table exists. The claim says that the method creates the table \<open>viewings\<close>, with a
  reference to \<open>movies.imdb_id\<close>, and that the records are inserted into it.
\<close>

theorem ViewingsTable_creates_movies:
  "dom (projr (ViewingsTable_drop_and_create TableBase Map.empty)) = {''movies''}
   \<and> map col_references
        (tbl_columns (the (projr (ViewingsTable_drop_and_create TableBase Map.empty) ''movies'')))
       = [Some (''movies'', ''id''), None, None, None]
   \<and> ViewingsTable_insert TableBase [example_viewing]
        (projr (ViewingsTable_drop_and_create TableBase Map.empty))
       = Inl (OperationalError ''no such table: viewings'')
   \<and> viewings_update TableBase [] \<lparr>yaml_files = Map.empty, dirs = {}\<rparr> Map.empty
       = Inl (OperationalError ''no such table: viewings'')
   \<and> ViewingsTable_drop_and_create TableBase
        [''movies'' \<mapsto> \<lparr>tbl_columns = [], tbl_rows = [], tbl_indexes = []\<rparr>]
       = Inl (OperationalError ''table movies already exists'')"
  by (simp add: ViewingsTable_drop_and_create_def ViewingsTable_insert_def viewings_update_def
        TableBase_def viewings_ddl_def viewings_insert_stmt_def exec_stmt_def exec_insert_def
        add_index_def TABLE_NAME_def)

section \<open>The checkpoint and the registry in a refresh\<close>

lemma checkpoint_skips:
  assumes "path \<in> markers w"
  shows "checkpoint path body w = (Inr (), w)"
  using assms by (simp add: checkpoint_def)

lemma checkpoint_runs:
  assumes "path \<notin> markers w"
  shows "checkpoint path body w =
           (case body w of
              (Inl e, w') \<Rightarrow> (Inl e, w')
            | (Inr u, w') \<Rightarrow> (Inr (), w'\<lparr>markers := insert path (markers w')\<rparr>))"
  using assms by (simp add: checkpoint_def)

lemma checkpoint_success:
  assumes "path \<notin> markers w" and "checkpoint path body w = (Inr (), w1)"
  shows "\<exists>w'. body w = (Inr (), w') \<and> w1 = w'\<lparr>markers := insert path (markers w')\<rparr>"
  using assms by (auto simp add: checkpoint_def split: prod.splits sum.splits)

lemma checkpoint_failure:
  assumes "path \<notin> markers w" and "checkpoint path body w = (Inl e, w1)"
  shows "body w = (Inl e, w1)"
  using assms by (auto simp add: checkpoint_def split: prod.splits sum.splits)

lemma movies_body_success:
  assumes "movies_body env path w = (Inr (), w')"
  shows "\<exists>snapshot_rows movies d1 d2.
           snapshot env path = Inr snapshot_rows
           \<and> extract_movies snapshot_rows = Inr movies
           \<and> MoviesTable_drop_and_create (base env) (tables w) = Inr d1
           \<and> MoviesTable_insert (base env) movies d1 = Inr d2
           \<and> w' = w\<lparr>passes := passes w @ [path], tables := d2, title_ids_cache := None\<rparr>"
  using assms
  by (auto simp add: movies_body_def extract_rows_def cache_clear_def
        split: sum.splits prod.splits)

lemma movies_body_failure:
  assumes "movies_body env path w = (Inl e, w')"
  shows "title_ids_cache w' = title_ids_cache w" and "markers w' = markers w"
  using assms
  by (auto simp add: movies_body_def extract_rows_def cache_clear_def
        split: sum.splits prod.splits)

lemma title_ids_fresh:
  assumes "title_ids_cache w = None" and "tables w ''movies'' = Some t"
    and "''imdb_id'' \<in> set (map col_name (tbl_columns t))"
  shows "fst (title_ids w) = Inr (select_imdb_ids t)"
  using assms by (simp add: title_ids_def)

lemma title_ids_passes: "passes (snd (title_ids w)) = passes w"
  and title_ids_markers: "markers (snd (title_ids w)) = markers w"
  and title_ids_tables: "tables (snd (title_ids w)) = tables w"
  by (simp_all add: title_ids_def split: option.splits)

lemma people_body_success:
  assumes "people_body env path w = (Inr (), w')"
  shows "\<exists>ids snapshot_rows people d1 d2.
           fst (title_ids w) = Inr ids
           \<and> snapshot env path = Inr snapshot_rows
           \<and> extract_people ids snapshot_rows = Inr people
           \<and> PeopleTable_drop_and_create (base env) (tables w) = Inr d1
           \<and> PeopleTable_insert (base env) people d1 = Inr d2
           \<and> passes w' = passes w @ [path] \<and> tables w' = d2 \<and> markers w' = markers w"
proof -
  obtain r w0 where t: "title_ids w = (r, w0)" by (cases "title_ids w")
  have w0: "passes w0 = passes w" "markers w0 = markers w" "tables w0 = tables w"
    using title_ids_passes [of w] title_ids_markers [of w] title_ids_tables [of w] t
    by simp_all
  show ?thesis
    using assms t w0
    by (auto simp add: people_body_def extract_rows_def split: sum.splits prod.splits)
qed

text \<open>
  Claim C5, as the specification states it, fails on an error path. The process has
  read the registry from an earlier Movie table (the set holds \<open>tt0000009\<close>). The Movie
  refresh drops and creates the table, and the insert raises. The cache still
  holds the set computed before the rebuild, and the next read of the registry returns
  it, although the rebuilt table holds no such movie.
\<close>

theorem movies_update_stale_cache_counterexample:
  "fst (movies_update (example_surroundings failing_insert) old_world)
     = Inl (OperationalError ''database or disk is full'')
   \<and> tbl_rows (the (tables (snd (movies_update (example_surroundings failing_insert)
                                   old_world)) ''movies'')) = []
   \<and> title_ids_cache (snd (movies_update (example_surroundings failing_insert) old_world))
       = Some {''tt0000009''}
   \<and> fst (title_ids (snd (movies_update (example_surroundings failing_insert) old_world)))
       = Inr {''tt0000009''}"
proof -
  have rows: "extract_movies example_title_rows =
      Inr [(''tt0000001'',
            \<lparr>Movie.imdb_id = ''tt0000001'', Movie.title = ''Alien'', original_title = True,
             Movie.year = ''1979'', runtime_minutes = ''117''\<rparr>)]"
    by (simp add: extract_movies_def example_title_rows_def title_is_valid_def Movie_init_def
          nth_field_def py_str_def py_bool_def)
  have run: "movies_update (example_surroundings failing_insert) old_world =
      (Inl (OperationalError ''database or disk is full''),
       old_world\<lparr>passes := [''/data/2020-03-07/title.basics.tsv.gz''],
                 tables := [''movies'' \<mapsto>
                   \<lparr>tbl_columns = [mk_column ''imdb_id'' ''TEXT'' True True None,
                                   mk_column ''title'' ''TEXT'' True False None,
                                   mk_column ''year'' ''INT'' True False None,
                                   mk_column ''runtime_minutes'' ''INT'' False False None],
                    tbl_rows = [], tbl_indexes = []\<rparr>]\<rparr>)"
    by (simp add: movies_update_def example_surroundings_def movies_FILE_NAME_def
          checkpoint_def old_world_def movies_body_def extract_rows_def rows
          MoviesTable_drop_and_create_def MoviesTable_insert_def failing_insert_def
          TableBase_def movies_ddl_def movies_insert_stmt_def exec_stmt_def exec_insert_def
          add_index_def asdict_movie_def mk_column_def)
  show ?thesis
    unfolding run by (simp add: old_world_def title_ids_def)
qed

text \<open>
  Claim C5, amended. In every run of the Movie refresh: when the checkpoint marker of
  the fetched generation is present, nothing is rebuilt and the state stays as it is;
  when the marker is absent and the rebuild finishes without error, the cache of the
  registry is invalidated as the last step of the rebuild, so that the next read of the
  registry computes the identifier set from the rebuilt Movie table; when a step of the
  rebuild raises, the cache is not invalidated and keeps what it held before.
\<close>

theorem movies_update_cache:
  assumes "download env movies_FILE_NAME = Inr path"
    and "movies_update env w = (result, w')"
  shows "(path \<in> markers w \<longrightarrow> result = Inr () \<and> w' = w)
         \<and> (path \<notin> markers w \<and> result = Inr () \<longrightarrow>
               title_ids_cache w' = None
               \<and> (\<forall>t. tables w' ''movies'' = Some t
                        \<and> ''imdb_id'' \<in> set (map col_name (tbl_columns t)) \<longrightarrow>
                      fst (title_ids w') = Inr (select_imdb_ids t)))
         \<and> (path \<notin> markers w \<and> result \<noteq> Inr () \<longrightarrow>
               title_ids_cache w' = title_ids_cache w)"
proof -
  have run: "checkpoint path (movies_body env path) w = (result, w')"
    using assms by (simp add: movies_update_def)
  have skipped: "result = Inr () \<and> w' = w" if "path \<in> markers w"
    using run checkpoint_skips [OF that, of "movies_body env path"] by simp
  have cleared: "title_ids_cache w' = None"
    if absent: "path \<notin> markers w" and ok: "result = Inr ()"
  proof -
    from checkpoint_success [OF absent] run ok obtain wb where
      b: "movies_body env path w = (Inr (), wb)"
      and w': "w' = wb\<lparr>markers := insert path (markers wb)\<rparr>"
      by blast
    from movies_body_success [OF b] have "title_ids_cache wb = None" by auto
    then show ?thesis using w' by simp
  qed
  have kept: "title_ids_cache w' = title_ids_cache w"
    if absent: "path \<notin> markers w" and failed: "result \<noteq> Inr ()"
  proof -
    obtain e where "result = Inl e" using failed by (cases result) auto
    then have "movies_body env path w = (Inl e, w')"
      using checkpoint_failure [OF absent] run by simp
    then show ?thesis by (rule movies_body_failure(1))
  qed
  show ?thesis
    using skipped cleared kept title_ids_fresh by blast
qed

theorem movies_update_cache_witness:
  "download (example_surroundings TableBase) movies_FILE_NAME
     = Inr ''/data/2020-03-07/title.basics.tsv.gz''
   \<and> ''/data/2020-03-07/title.basics.tsv.gz'' \<notin> markers old_world
   \<and> fst (movies_update (example_surroundings TableBase) old_world) = Inr ()
   \<and> title_ids_cache (snd (movies_update (example_surroundings TableBase) old_world)) = None
   \<and> fst (title_ids (snd (movies_update (example_surroundings TableBase) old_world)))
       = Inr {''tt0000001''}"
proof -
  let ?env = "example_surroundings TableBase"
  let ?path = "''/data/2020-03-07/title.basics.tsv.gz''"
  let ?t = "\<lparr>tbl_columns = [mk_column ''imdb_id'' ''TEXT'' True True None,
                             mk_column ''title'' ''TEXT'' True False None,
                             mk_column ''year'' ''INT'' True False None,
                             mk_column ''runtime_minutes'' ''INT'' False False None],
             tbl_rows = [[(''imdb_id'', SText ''tt0000001''), (''title'', SText ''Alien''),
                          (''year'', SText ''1979''), (''runtime_minutes'', SText ''117'')]],
             tbl_indexes = [''title'']\<rparr>"
  have rows: "extract_movies example_title_rows =
      Inr [(''tt0000001'',
            \<lparr>Movie.imdb_id = ''tt0000001'', Movie.title = ''Alien'', original_title = True,
             Movie.year = ''1979'', runtime_minutes = ''117''\<rparr>)]"
    by (simp add: extract_movies_def example_title_rows_def title_is_valid_def Movie_init_def
          nth_field_def py_str_def py_bool_def)
  have h1: "download ?env movies_FILE_NAME = Inr ?path"
    by (simp add: example_surroundings_def movies_FILE_NAME_def)
  have m: "?path \<notin> markers old_world" by (simp add: old_world_def)
  have run: "movies_update ?env old_world =
      (Inr (), old_world\<lparr>passes := [?path], tables := [''movies'' \<mapsto> ?t],
                         title_ids_cache := None, markers := {?path}\<rparr>)"
    by (simp add: movies_update_def example_surroundings_def movies_FILE_NAME_def
          checkpoint_def old_world_def movies_body_def extract_rows_def rows cache_clear_def
          MoviesTable_drop_and_create_def MoviesTable_insert_def
          TableBase_def movies_ddl_def movies_insert_stmt_def exec_stmt_def exec_insert_def
          add_index_def validate_def asdict_movie_def mk_column_def)
  have tab: "tables (snd (movies_update ?env old_world)) ''movies'' = Some ?t"
    unfolding run by simp
  have col: "''imdb_id'' \<in> set (map col_name (tbl_columns ?t))"
    by (simp add: mk_column_def)
  have sel: "select_imdb_ids ?t = {''tt0000001''}"
    by (simp add: select_imdb_ids_def)
  have res: "fst (movies_update ?env old_world) = Inr ()" unfolding run by simp
  have h2: "movies_update ?env old_world =
              (fst (movies_update ?env old_world), snd (movies_update ?env old_world))"
    by simp
  from movies_update_cache [OF h1 h2] m res tab col
  have "title_ids_cache (snd (movies_update ?env old_world)) = None
        \<and> fst (title_ids (snd (movies_update ?env old_world))) = Inr (select_imdb_ids ?t)"
    by blast
  then show ?thesis using h1 m res sel by simp
qed

section \<open>A refresh run twice on one generation\<close>

lemma insert_all_bound:
  assumes "insert_all stmt (map f xs) d = Inr d'" and "d (into_table stmt) = Some t"
    and "\<And>x. bind_params (into_columns stmt) (value_params stmt) (f x) = Inr (g x)"
  shows "d' (into_table stmt) = Some (t\<lparr>tbl_rows := tbl_rows t @ map g xs\<rparr>)"
  using assms(1,2)
proof (induction xs arbitrary: d t)
  case Nil
  then show ?case by simp
next
  case (Cons x xs)
  from Cons.prems obtain d1 where
    one: "exec_insert stmt (f x) d = Inr d1" and rest: "insert_all stmt (map f xs) d1 = Inr d'"
    by (auto split: sum.splits)
  have d1: "d1 (into_table stmt) = Some (t\<lparr>tbl_rows := tbl_rows t @ [g x]\<rparr>)"
    using one Cons.prems(2) assms(3) [of x]
    by (auto simp add: exec_insert_def split: if_splits)
  from Cons.IH [OF rest d1] show ?case by simp
qed

lemma add_index_table:
  assumes "add_index name col d = Inr d'"
  shows "\<exists>t. d name = Some t \<and> d' name = Some (t\<lparr>tbl_indexes := tbl_indexes t @ [col]\<rparr>)"
  using assms by (auto simp add: add_index_def split: option.splits if_splits)

lemma movies_bound:
  "bind_params (into_columns movies_insert_stmt) (value_params movies_insert_stmt)
     (asdict_movie m) =
   Inr [(''imdb_id'', SText (Movie.imdb_id m)), (''title'', SText (Movie.title m)),
        (''year'', SText (Movie.year m)), (''runtime_minutes'', SText (runtime_minutes m))]"
  by (simp add: movies_insert_stmt_def asdict_movie_def)

lemma people_bound:
  "bind_params (into_columns people_insert_stmt) (value_params people_insert_stmt)
     (asdict_person p) =
   Inr [(''imdb_id'', SText (Person.imdb_id p)), (''full_name'', SText (full_name p)),
        (''last_name'', opt_text (last_name p)), (''first_name'', opt_text (first_name p)),
        (''birth_year'', opt_text (birth_year p)), (''death_year'', opt_text (death_year p)),
        (''primary_profession'', opt_text (primary_profession p)),
        (''known_for_title_ids'', opt_text (known_for_title_ids p))]"
  by (simp add: people_insert_stmt_def asdict_person_def)

lemma aka_titles_bound:
  "bind_params (into_columns aka_titles_insert_stmt) (value_params aka_titles_insert_stmt)
     (asdict_aka_title a) =
   Inr [(''movie_imdb_id'', SText (movie_imdb_id a)), (''sequence'', SInt (AkaTitle.sequence a)),
        (''title'', SText (AkaTitle.title a)), (''region'', opt_text (region a)),
        (''language'', opt_text (language a)), (''types'', opt_text (types a)),
        (''attributes'', opt_text (attributes a)),
        (''is_original_title'', opt_text (is_original_title a))]"
  by (simp add: aka_titles_insert_stmt_def asdict_aka_title_def)

lemma MoviesTable_rebuilt:
  assumes "MoviesTable_drop_and_create TableBase d = Inr d1"
    and "MoviesTable_insert TableBase movies d1 = Inr d2"
  shows "\<exists>t. d2 ''movies'' = Some t
           \<and> tbl_rows t =
               map (\<lambda>(k, m). [(''imdb_id'', SText (Movie.imdb_id m)),
                               (''title'', SText (Movie.title m)),
                               (''year'', SText (Movie.year m)),
                               (''runtime_minutes'', SText (runtime_minutes m))]) movies"
proof -
  let ?g = "\<lambda>(k, m). [(''imdb_id'', SText (Movie.imdb_id m)),
                          (''title'', SText (Movie.title m)),
                          (''year'', SText (Movie.year m)),
                          (''runtime_minutes'', SText (runtime_minutes m))]"
  have "\<exists>cols. MoviesTable_drop_and_create TableBase d =
            Inr (d(''movies'' \<mapsto> \<lparr>tbl_columns = cols, tbl_rows = [], tbl_indexes = []\<rparr>))"
    by (simp add: MoviesTable_drop_and_create_def TableBase_def movies_ddl_def exec_stmt_def)
       (rule exI, rule refl)
  then obtain cols where created:
    "d1 ''movies'' = Some \<lparr>tbl_columns = cols, tbl_rows = [], tbl_indexes = []\<rparr>"
    using assms(1) by auto
  obtain da db where
    ins: "insert_all movies_insert_stmt (map (\<lambda>(k, movie). asdict_movie movie) movies) d1 = Inr da"
    and idx: "add_index ''movies'' ''title'' da = Inr db" and d2: "d2 = db"
    using assms(2)
    by (auto simp add: MoviesTable_insert_def TableBase_def split: sum.splits)
  have bound: "bind_params (into_columns movies_insert_stmt) (value_params movies_insert_stmt)
                 ((\<lambda>(k, movie). asdict_movie movie) x) = Inr (?g x)" for x
    by (cases x) (simp add: movies_bound)
  have tab: "into_table movies_insert_stmt = ''movies''" by (simp add: movies_insert_stmt_def)
  from insert_all_bound [of movies_insert_stmt _ movies d1 da _ ?g, OF ins _ bound] created tab
  have da: "da ''movies'' =
              Some \<lparr>tbl_columns = cols, tbl_rows = map ?g movies, tbl_indexes = []\<rparr>"
    by simp
  from add_index_table [OF idx] da d2 show ?thesis by auto
qed

lemma PeopleTable_rebuilt:
  assumes "PeopleTable_drop_and_create TableBase d = Inr d1"
    and "PeopleTable_insert TableBase people d1 = Inr d2"
  shows "\<exists>t. d2 ''people'' = Some t
           \<and> tbl_rows t =
               map (\<lambda>(k, p). [(''imdb_id'', SText (Person.imdb_id p)),
                               (''full_name'', SText (full_name p)),
                               (''last_name'', opt_text (last_name p)),
                               (''first_name'', opt_text (first_name p)),
                               (''birth_year'', opt_text (birth_year p)),
                               (''death_year'', opt_text (death_year p)),
                               (''primary_profession'', opt_text (primary_profession p)),
                               (''known_for_title_ids'', opt_text (known_for_title_ids p))])
                 people"
proof -
  let ?g = "\<lambda>(k, p). [(''imdb_id'', SText (Person.imdb_id p)),
                          (''full_name'', SText (full_name p)),
                          (''last_name'', opt_text (last_name p)),
                          (''first_name'', opt_text (first_name p)),
                          (''birth_year'', opt_text (birth_year p)),
                          (''death_year'', opt_text (death_year p)),
                          (''primary_profession'', opt_text (primary_profession p)),
                          (''known_for_title_ids'', opt_text (known_for_title_ids p))]"
  have "\<exists>cols. PeopleTable_drop_and_create TableBase d =
            Inr (d(''people'' \<mapsto> \<lparr>tbl_columns = cols, tbl_rows = [], tbl_indexes = []\<rparr>))"
    by (simp add: PeopleTable_drop_and_create_def TableBase_def people_ddl_def exec_stmt_def)
       (rule exI, rule refl)
  then obtain cols where created:
    "d1 ''people'' = Some \<lparr>tbl_columns = cols, tbl_rows = [], tbl_indexes = []\<rparr>"
    using assms(1) by auto
  obtain da db where
    ins: "insert_all people_insert_stmt (map (\<lambda>(k, person). asdict_person person) people) d1
            = Inr da"
    and idx: "add_index ''people'' ''full_name'' da = Inr db" and d2: "d2 = db"
    using assms(2)
    by (auto simp add: PeopleTable_insert_def TableBase_def split: sum.splits)
  have bound: "bind_params (into_columns people_insert_stmt) (value_params people_insert_stmt)
                 ((\<lambda>(k, person). asdict_person person) x) = Inr (?g x)" for x
    by (cases x) (simp add: people_bound)
  have tab: "into_table people_insert_stmt = ''people''" by (simp add: people_insert_stmt_def)
  from insert_all_bound [of people_insert_stmt _ people d1 da _ ?g, OF ins _ bound] created tab
  have da: "da ''people'' =
              Some \<lparr>tbl_columns = cols, tbl_rows = map ?g people, tbl_indexes = []\<rparr>"
    by simp
  from add_index_table [OF idx] da d2 show ?thesis by auto
qed

lemma AkaTitlesTable_rebuilt:
  assumes "AkaTitlesTable_drop_and_create TableBase d = Inr d1"
    and "AkaTitlesTable_insert TableBase aka_titles d1 = Inr d2"
  shows "\<exists>t. d2 ''aka_titles'' = Some t
           \<and> tbl_rows t =
               map (\<lambda>a. [(''movie_imdb_id'', SText (movie_imdb_id a)),
                          (''sequence'', SInt (AkaTitle.sequence a)),
                          (''title'', SText (AkaTitle.title a)),
                          (''region'', opt_text (region a)),
                          (''language'', opt_text (language a)),
                          (''types'', opt_text (types a)),
                          (''attributes'', opt_text (attributes a)),
                          (''is_original_title'', opt_text (is_original_title a))])
                 aka_titles"
proof -
  let ?g = "\<lambda>a. [(''movie_imdb_id'', SText (movie_imdb_id a)),
                     (''sequence'', SInt (AkaTitle.sequence a)),
                     (''title'', SText (AkaTitle.title a)),
                     (''region'', opt_text (region a)),
                     (''language'', opt_text (language a)),
                     (''types'', opt_text (types a)),
                     (''attributes'', opt_text (attributes a)),
                     (''is_original_title'', opt_text (is_original_title a))]"
  have "\<exists>cols. AkaTitlesTable_drop_and_create TableBase d =
            Inr (d(''aka_titles'' \<mapsto> \<lparr>tbl_columns = cols, tbl_rows = [], tbl_indexes = []\<rparr>))"
    by (simp add: AkaTitlesTable_drop_and_create_def TableBase_def aka_titles_ddl_def exec_stmt_def)
       (rule exI, rule refl)
  then obtain cols where created:
    "d1 ''aka_titles'' = Some \<lparr>tbl_columns = cols, tbl_rows = [], tbl_indexes = []\<rparr>"
    using assms(1) by auto
  obtain da db where
    ins: "insert_all aka_titles_insert_stmt (map asdict_aka_title aka_titles) d1 = Inr da"
    and idx: "add_index ''aka_titles'' ''title'' da = Inr db" and d2: "d2 = db"
    using assms(2)
    by (auto simp add: AkaTitlesTable_insert_def TableBase_def split: sum.splits)
  have tab: "into_table aka_titles_insert_stmt = ''aka_titles''"
    by (simp add: aka_titles_insert_stmt_def)
  from insert_all_bound [of aka_titles_insert_stmt asdict_aka_title aka_titles d1 da _ ?g,
      OF ins _ aka_titles_bound] created tab
  have da: "da ''aka_titles'' =
              Some \<lparr>tbl_columns = cols, tbl_rows = map ?g aka_titles, tbl_indexes = []\<rparr>"
    by simp
  from add_index_table [OF idx] da d2 show ?thesis by auto
qed

lemma aka_titles_body_success:
  assumes "aka_titles_body env path w = (Inr (), w')"
  shows "\<exists>ids snapshot_rows aka_titles d1 d2.
           fst (title_ids w) = Inr ids
           \<and> snapshot env path = Inr snapshot_rows
           \<and> extract_aka_titles ids snapshot_rows = Inr aka_titles
           \<and> AkaTitlesTable_drop_and_create (base env) (tables w) = Inr d1
           \<and> AkaTitlesTable_insert (base env) aka_titles d1 = Inr d2
           \<and> passes w' = passes w @ [path] \<and> tables w' = d2 \<and> markers w' = markers w"
proof -
  obtain r w0 where t: "title_ids w = (r, w0)" by (cases "title_ids w")
  have w0: "passes w0 = passes w" "markers w0 = markers w" "tables w0 = tables w"
    using title_ids_passes [of w] title_ids_markers [of w] title_ids_tables [of w] t
    by simp_all
  show ?thesis
    using assms t w0
    by (auto simp add: aka_titles_body_def extract_rows_def split: sum.splits prod.splits)
qed

lemma movies_update_twice:
  assumes "base env = TableBase" and "download env movies_FILE_NAME = Inr path"
    and "path \<notin> markers w" and "movies_update env w = (Inr (), w1)"
  shows "movies_update env w1 = (Inr (), w1)" and "passes w1 = passes w @ [path]"
    and "\<exists>snapshot_rows movies t.
           snapshot env path = Inr snapshot_rows \<and> extract_movies snapshot_rows = Inr movies
           \<and> tables w1 ''movies'' = Some t
           \<and> tbl_rows t =
               map (\<lambda>(k, m). [(''imdb_id'', SText (Movie.imdb_id m)),
                               (''title'', SText (Movie.title m)),
                               (''year'', SText (Movie.year m)),
                               (''runtime_minutes'', SText (runtime_minutes m))]) movies"
proof -
  have "checkpoint path (movies_body env path) w = (Inr (), w1)"
    using assms(2,4) by (simp add: movies_update_def)
  from checkpoint_success [OF assms(3) this] obtain wb where
    b: "movies_body env path w = (Inr (), wb)"
    and w1: "w1 = wb\<lparr>markers := insert path (markers wb)\<rparr>"
    by blast
  from movies_body_success [OF b] obtain snapshot_rows movies d1 d2 where
    s: "snapshot env path = Inr snapshot_rows"
    and x: "extract_movies snapshot_rows = Inr movies"
    and c: "MoviesTable_drop_and_create (base env) (tables w) = Inr d1"
    and i: "MoviesTable_insert (base env) movies d1 = Inr d2"
    and wb: "wb = w\<lparr>passes := passes w @ [path], tables := d2, title_ids_cache := None\<rparr>"
    by blast
  from MoviesTable_rebuilt [of "tables w" d1 movies d2] c i assms(1) obtain t where
    t: "d2 ''movies'' = Some t"
      "tbl_rows t = map (\<lambda>(k, m). [(''imdb_id'', SText (Movie.imdb_id m)),
                                    (''title'', SText (Movie.title m)),
                                    (''year'', SText (Movie.year m)),
                                    (''runtime_minutes'', SText (runtime_minutes m))]) movies"
    by auto
  have marked: "path \<in> markers w1" using w1 by simp
  show "movies_update env w1 = (Inr (), w1)"
    using assms(2) checkpoint_skips [OF marked] by (simp add: movies_update_def)
  show "passes w1 = passes w @ [path]" using w1 wb by simp
  have "tables w1 ''movies'' = Some t" using t(1) w1 wb by simp
  with s x t(2) show "\<exists>snapshot_rows movies t.
           snapshot env path = Inr snapshot_rows \<and> extract_movies snapshot_rows = Inr movies
           \<and> tables w1 ''movies'' = Some t
           \<and> tbl_rows t =
               map (\<lambda>(k, m). [(''imdb_id'', SText (Movie.imdb_id m)),
                               (''title'', SText (Movie.title m)),
                               (''year'', SText (Movie.year m)),
                               (''runtime_minutes'', SText (runtime_minutes m))]) movies"
    by blast
qed

lemma people_update_twice:
  assumes "base env = TableBase" and "download env people_FILE_NAME = Inr path"
    and "path \<notin> markers w" and "people_update env w = (Inr (), w1)"
  shows "people_update env w1 = (Inr (), w1)" and "passes w1 = passes w @ [path]"
    and "\<exists>ids snapshot_rows people t.
           fst (title_ids w) = Inr ids \<and> snapshot env path = Inr snapshot_rows
           \<and> extract_people ids snapshot_rows = Inr people
           \<and> tables w1 ''people'' = Some t
           \<and> tbl_rows t =
               map (\<lambda>(k, p). [(''imdb_id'', SText (Person.imdb_id p)),
                               (''full_name'', SText (full_name p)),
                               (''last_name'', opt_text (last_name p)),
                               (''first_name'', opt_text (first_name p)),
                               (''birth_year'', opt_text (birth_year p)),
                               (''death_year'', opt_text (death_year p)),
                               (''primary_profession'', opt_text (primary_profession p)),
                               (''known_for_title_ids'', opt_text (known_for_title_ids p))])
                 people"
proof -
  have "checkpoint path (people_body env path) w = (Inr (), w1)"
    using assms(2,4) by (simp add: people_update_def)
  from checkpoint_success [OF assms(3) this] obtain wb where
    b: "people_body env path w = (Inr (), wb)"
    and w1: "w1 = wb\<lparr>markers := insert path (markers wb)\<rparr>"
    by blast
  from people_body_success [OF b] obtain ids snapshot_rows people d1 d2 where
    r: "fst (title_ids w) = Inr ids"
    and s: "snapshot env path = Inr snapshot_rows"
    and x: "extract_people ids snapshot_rows = Inr people"
    and c: "PeopleTable_drop_and_create (base env) (tables w) = Inr d1"
    and i: "PeopleTable_insert (base env) people d1 = Inr d2"
    and wb: "passes wb = passes w @ [path]" "tables wb = d2"
    by blast
  from PeopleTable_rebuilt [of "tables w" d1 people d2] c i assms(1) obtain t where
    t: "d2 ''people'' = Some t"
      "tbl_rows t =
         map (\<lambda>(k, p). [(''imdb_id'', SText (Person.imdb_id p)),
                         (''full_name'', SText (full_name p)),
                         (''last_name'', opt_text (last_name p)),
                         (''first_name'', opt_text (first_name p)),
                         (''birth_year'', opt_text (birth_year p)),
                         (''death_year'', opt_text (death_year p)),
                         (''primary_profession'', opt_text (primary_profession p)),
                         (''known_for_title_ids'', opt_text (known_for_title_ids p))]) people"
    by auto
  have marked: "path \<in> markers w1" using w1 by simp
  show "people_update env w1 = (Inr (), w1)"
    using assms(2) checkpoint_skips [OF marked] by (simp add: people_update_def)
  show "passes w1 = passes w @ [path]" using w1 wb by simp
  have "tables w1 ''people'' = Some t" using t(1) w1 wb by simp
  with r s x t(2) show "\<exists>ids snapshot_rows people t.
           fst (title_ids w) = Inr ids \<and> snapshot env path = Inr snapshot_rows
           \<and> extract_people ids snapshot_rows = Inr people
           \<and> tables w1 ''people'' = Some t
           \<and> tbl_rows t =
               map (\<lambda>(k, p). [(''imdb_id'', SText (Person.imdb_id p)),
                               (''full_name'', SText (full_name p)),
                               (''last_name'', opt_text (last_name p)),
                               (''first_name'', opt_text (first_name p)),
                               (''birth_year'', opt_text (birth_year p)),
                               (''death_year'', opt_text (death_year p)),
                               (''primary_profession'', opt_text (primary_profession p)),
                               (''known_for_title_ids'', opt_text (known_for_title_ids p))])
                 people"
    by blast
qed

lemma aka_titles_update_twice:
  assumes "base env = TableBase" and "download env aka_titles_FILE_NAME = Inr path"
    and "path \<notin> markers w" and "aka_titles_update env w = (Inr (), w1)"
  shows "aka_titles_update env w1 = (Inr (), w1)" and "passes w1 = passes w @ [path]"
    and "\<exists>ids snapshot_rows aka_titles t.
           fst (title_ids w) = Inr ids \<and> snapshot env path = Inr snapshot_rows
           \<and> extract_aka_titles ids snapshot_rows = Inr aka_titles
           \<and> tables w1 ''aka_titles'' = Some t
           \<and> tbl_rows t =
               map (\<lambda>a. [(''movie_imdb_id'', SText (movie_imdb_id a)),
                          (''sequence'', SInt (AkaTitle.sequence a)),
                          (''title'', SText (AkaTitle.title a)),
                          (''region'', opt_text (region a)),
                          (''language'', opt_text (language a)),
                          (''types'', opt_text (types a)),
                          (''attributes'', opt_text (attributes a)),
                          (''is_original_title'', opt_text (is_original_title a))])
                 aka_titles"
proof -
  have "checkpoint path (aka_titles_body env path) w = (Inr (), w1)"
    using assms(2,4) by (simp add: aka_titles_update_def)
  from checkpoint_success [OF assms(3) this] obtain wb where
    b: "aka_titles_body env path w = (Inr (), wb)"
    and w1: "w1 = wb\<lparr>markers := insert path (markers wb)\<rparr>"
    by blast
  from aka_titles_body_success [OF b] obtain ids snapshot_rows aka_titles d1 d2 where
    r: "fst (title_ids w) = Inr ids"
    and s: "snapshot env path = Inr snapshot_rows"
    and x: "extract_aka_titles ids snapshot_rows = Inr aka_titles"
    and c: "AkaTitlesTable_drop_and_create (base env) (tables w) = Inr d1"
    and i: "AkaTitlesTable_insert (base env) aka_titles d1 = Inr d2"
    and wb: "passes wb = passes w @ [path]" "tables wb = d2"
    by blast
  from AkaTitlesTable_rebuilt [of "tables w" d1 aka_titles d2] c i assms(1) obtain t where
    t: "d2 ''aka_titles'' = Some t"
      "tbl_rows t =
         map (\<lambda>a. [(''movie_imdb_id'', SText (movie_imdb_id a)),
                    (''sequence'', SInt (AkaTitle.sequence a)),
                    (''title'', SText (AkaTitle.title a)),
                    (''region'', opt_text (region a)),
                    (''language'', opt_text (language a)),
                    (''types'', opt_text (types a)),
                    (''attributes'', opt_text (attributes a)),
                    (''is_original_title'', opt_text (is_original_title a))]) aka_titles"
    by auto
  have marked: "path \<in> markers w1" using w1 by simp
  show "aka_titles_update env w1 = (Inr (), w1)"
    using assms(2) checkpoint_skips [OF marked] by (simp add: aka_titles_update_def)
  show "passes w1 = passes w @ [path]" using w1 wb by simp
  have "tables w1 ''aka_titles'' = Some t" using t(1) w1 wb by simp
  with r s x t(2) show "\<exists>ids snapshot_rows aka_titles t.
           fst (title_ids w) = Inr ids \<and> snapshot env path = Inr snapshot_rows
           \<and> extract_aka_titles ids snapshot_rows = Inr aka_titles
           \<and> tables w1 ''aka_titles'' = Some t
           \<and> tbl_rows t =
               map (\<lambda>a. [(''movie_imdb_id'', SText (movie_imdb_id a)),
                          (''sequence'', SInt (AkaTitle.sequence a)),
                          (''title'', SText (AkaTitle.title a)),
                          (''region'', opt_text (region a)),
                          (''language'', opt_text (language a)),
                          (''types'', opt_text (types a)),
                          (''attributes'', opt_text (attributes a)),
                          (''is_original_title'', opt_text (is_original_title a))])
                 aka_titles"
    by blast
qed

text \<open>
  Claim C6. Take the table loader of the specification, and a refresh of movies, of
  people or of alternate titles that starts without the checkpoint marker of the
  fetched generation and returns without error. Then a second run on the same
  generation returns at once and changes nothing: its checkpoint handle yields nothing
  and its body is skipped, so the two runs make one pass of decompressing and parsing
  together; and after both runs the table holds one row for each entity that the single
  pass accepted, in the order of acceptance and with the values that the insert
  statement binds, so that the row count of the table is the count of accepted
  entities.
\<close>

theorem refresh_twice_runs_body_once:
  assumes "base env = TableBase"
  shows "(\<forall>path w w1.
            download env movies_FILE_NAME = Inr path \<and> path \<notin> markers w
              \<and> movies_update env w = (Inr (), w1) \<longrightarrow>
            movies_update env w1 = (Inr (), w1)
            \<and> passes (snd (movies_update env w1)) = passes w @ [path]
            \<and> (\<exists>snapshot_rows movies t.
                  snapshot env path = Inr snapshot_rows
                  \<and> extract_movies snapshot_rows = Inr movies
                  \<and> tables (snd (movies_update env w1)) ''movies'' = Some t
                  \<and> length (tbl_rows t) = length movies
                  \<and> tbl_rows t =
                      map (\<lambda>(k, m). [(''imdb_id'', SText (Movie.imdb_id m)),
                                      (''title'', SText (Movie.title m)),
                                      (''year'', SText (Movie.year m)),
                                      (''runtime_minutes'', SText (runtime_minutes m))])
                        movies))
         \<and> (\<forall>path w w1.
            download env people_FILE_NAME = Inr path \<and> path \<notin> markers w
              \<and> people_update env w = (Inr (), w1) \<longrightarrow>
            people_update env w1 = (Inr (), w1)
            \<and> passes (snd (people_update env w1)) = passes w @ [path]
            \<and> (\<exists>ids snapshot_rows people t.
                  fst (title_ids w) = Inr ids \<and> snapshot env path = Inr snapshot_rows
                  \<and> extract_people ids snapshot_rows = Inr people
                  \<and> tables (snd (people_update env w1)) ''people'' = Some t
                  \<and> length (tbl_rows t) = length people
                  \<and> tbl_rows t =
                      map (\<lambda>(k, p).
                             [(''imdb_id'', SText (Person.imdb_id p)),
                              (''full_name'', SText (full_name p)),
                              (''last_name'', opt_text (last_name p)),
                              (''first_name'', opt_text (first_name p)),
                              (''birth_year'', opt_text (birth_year p)),
                              (''death_year'', opt_text (death_year p)),
                              (''primary_profession'', opt_text (primary_profession p)),
                              (''known_for_title_ids'', opt_text (known_for_title_ids p))])
                        people))
         \<and> (\<forall>path w w1.
            download env aka_titles_FILE_NAME = Inr path \<and> path \<notin> markers w
              \<and> aka_titles_update env w = (Inr (), w1) \<longrightarrow>
            aka_titles_update env w1 = (Inr (), w1)
            \<and> passes (snd (aka_titles_update env w1)) = passes w @ [path]
            \<and> (\<exists>ids snapshot_rows aka_titles t.
                  fst (title_ids w) = Inr ids \<and> snapshot env path = Inr snapshot_rows
                  \<and> extract_aka_titles ids snapshot_rows = Inr aka_titles
                  \<and> tables (snd (aka_titles_update env w1)) ''aka_titles'' = Some t
                  \<and> length (tbl_rows t) = length aka_titles
                  \<and> tbl_rows t =
                      map (\<lambda>a. [(''movie_imdb_id'', SText (movie_imdb_id a)),
                                 (''sequence'', SInt (AkaTitle.sequence a)),
                                 (''title'', SText (AkaTitle.title a)),
                                 (''region'', opt_text (region a)),
                                 (''language'', opt_text (language a)),
                                 (''types'', opt_text (types a)),
                                 (''attributes'', opt_text (attributes a)),
                                 (''is_original_title'', opt_text (is_original_title a))])
                        aka_titles))"
proof (intro conjI allI impI)
  fix path w w1
  assume a: "download env movies_FILE_NAME = Inr path \<and> path \<notin> markers w
               \<and> movies_update env w = (Inr (), w1)"
  then have a1: "download env movies_FILE_NAME = Inr path" and a2: "path \<notin> markers w"
    and a3: "movies_update env w = (Inr (), w1)"
    by blast+
  note m = movies_update_twice [OF assms a1 a2 a3]
  show again: "movies_update env w1 = (Inr (), w1)" by (rule m(1))
  have s: "snd (movies_update env w1) = w1" using again by simp
  show "passes (snd (movies_update env w1)) = passes w @ [path]"
    unfolding s by (rule m(2))
  from m(3) obtain snapshot_rows movies t where
    r: "snapshot env path = Inr snapshot_rows" "extract_movies snapshot_rows = Inr movies"
      "tables w1 ''movies'' = Some t"
    and rows: "tbl_rows t =
                 map (\<lambda>(k, m). [(''imdb_id'', SText (Movie.imdb_id m)),
                                 (''title'', SText (Movie.title m)),
                                 (''year'', SText (Movie.year m)),
                                 (''runtime_minutes'', SText (runtime_minutes m))]) movies"
    by blast
  have count: "length (tbl_rows t) = length movies" unfolding rows by simp
  show "\<exists>snapshot_rows movies t.
          snapshot env path = Inr snapshot_rows \<and> extract_movies snapshot_rows = Inr movies
          \<and> tables (snd (movies_update env w1)) ''movies'' = Some t
          \<and> length (tbl_rows t) = length movies
          \<and> tbl_rows t =
              map (\<lambda>(k, m). [(''imdb_id'', SText (Movie.imdb_id m)),
                              (''title'', SText (Movie.title m)),
                              (''year'', SText (Movie.year m)),
                              (''runtime_minutes'', SText (runtime_minutes m))]) movies"
    unfolding s using r count rows by blast
next
  fix path w w1
  assume a: "download env people_FILE_NAME = Inr path \<and> path \<notin> markers w
               \<and> people_update env w = (Inr (), w1)"
  then have a1: "download env people_FILE_NAME = Inr path" and a2: "path \<notin> markers w"
    and a3: "people_update env w = (Inr (), w1)"
    by blast+
  note m = people_update_twice [OF assms a1 a2 a3]
  show again: "people_update env w1 = (Inr (), w1)" by (rule m(1))
  have s: "snd (people_update env w1) = w1" using again by simp
  show "passes (snd (people_update env w1)) = passes w @ [path]"
    unfolding s by (rule m(2))
  from m(3) obtain ids snapshot_rows people t where
    r: "fst (title_ids w) = Inr ids" "snapshot env path = Inr snapshot_rows"
      "extract_people ids snapshot_rows = Inr people" "tables w1 ''people'' = Some t"
    and rows: "tbl_rows t =
                 map (\<lambda>(k, p).
                        [(''imdb_id'', SText (Person.imdb_id p)),
                         (''full_name'', SText (full_name p)),
                         (''last_name'', opt_text (last_name p)),
                         (''first_name'', opt_text (first_name p)),
                         (''birth_year'', opt_text (birth_year p)),
                         (''death_year'', opt_text (death_year p)),
                         (''primary_profession'', opt_text (primary_profession p)),
                         (''known_for_title_ids'', opt_text (known_for_title_ids p))]) people"
    by blast
  have count: "length (tbl_rows t) = length people" unfolding rows by simp
  show "\<exists>ids snapshot_rows people t.
          fst (title_ids w) = Inr ids \<and> snapshot env path = Inr snapshot_rows
          \<and> extract_people ids snapshot_rows = Inr people
          \<and> tables (snd (people_update env w1)) ''people'' = Some t
          \<and> length (tbl_rows t) = length people
          \<and> tbl_rows t =
              map (\<lambda>(k, p).
                     [(''imdb_id'', SText (Person.imdb_id p)),
                      (''full_name'', SText (full_name p)),
                      (''last_name'', opt_text (last_name p)),
                      (''first_name'', opt_text (first_name p)),
                      (''birth_year'', opt_text (birth_year p)),
                      (''death_year'', opt_text (death_year p)),
                      (''primary_profession'', opt_text (primary_profession p)),
                      (''known_for_title_ids'', opt_text (known_for_title_ids p))]) people"
    unfolding s using r count rows by blast
next
  fix path w w1
  assume a: "download env aka_titles_FILE_NAME = Inr path \<and> path \<notin> markers w
               \<and> aka_titles_update env w = (Inr (), w1)"
  then have a1: "download env aka_titles_FILE_NAME = Inr path" and a2: "path \<notin> markers w"
    and a3: "aka_titles_update env w = (Inr (), w1)"
    by blast+
  note m = aka_titles_update_twice [OF assms a1 a2 a3]
  show again: "aka_titles_update env w1 = (Inr (), w1)" by (rule m(1))
  have s: "snd (aka_titles_update env w1) = w1" using again by simp
  show "passes (snd (aka_titles_update env w1)) = passes w @ [path]"
    unfolding s by (rule m(2))
  from m(3) obtain ids snapshot_rows aka_titles t where
    r: "fst (title_ids w) = Inr ids" "snapshot env path = Inr snapshot_rows"
      "extract_aka_titles ids snapshot_rows = Inr aka_titles"
      "tables w1 ''aka_titles'' = Some t"
    and rows: "tbl_rows t =
                 map (\<lambda>a. [(''movie_imdb_id'', SText (movie_imdb_id a)),
                            (''sequence'', SInt (AkaTitle.sequence a)),
                            (''title'', SText (AkaTitle.title a)),
                            (''region'', opt_text (region a)),
                            (''language'', opt_text (language a)),
                            (''types'', opt_text (types a)),
                            (''attributes'', opt_text (attributes a)),
                            (''is_original_title'', opt_text (is_original_title a))])
                   aka_titles"
    by blast
  have count: "length (tbl_rows t) = length aka_titles" unfolding rows by simp
  show "\<exists>ids snapshot_rows aka_titles t.
          fst (title_ids w) = Inr ids \<and> snapshot env path = Inr snapshot_rows
          \<and> extract_aka_titles ids snapshot_rows = Inr aka_titles
          \<and> tables (snd (aka_titles_update env w1)) ''aka_titles'' = Some t
          \<and> length (tbl_rows t) = length aka_titles
          \<and> tbl_rows t =
              map (\<lambda>a. [(''movie_imdb_id'', SText (movie_imdb_id a)),
                         (''sequence'', SInt (AkaTitle.sequence a)),
                         (''title'', SText (AkaTitle.title a)),
                         (''region'', opt_text (region a)),
                         (''language'', opt_text (language a)),
                         (''types'', opt_text (types a)),
                         (''attributes'', opt_text (attributes a)),
                         (''is_original_title'', opt_text (is_original_title a))])
                aka_titles"
    unfolding s using r count rows by blast
qed
lemma example_movies: "extract_movies example_title_rows =
    Inr [(''tt0000001'',
          \<lparr>Movie.imdb_id = ''tt0000001'', Movie.title = ''Alien'', original_title = True,
           Movie.year = ''1979'', runtime_minutes = ''117''\<rparr>)]"
  by (simp add: extract_movies_def example_title_rows_def title_is_valid_def Movie_init_def
        nth_field_def py_str_def py_bool_def)

lemma example_people: "extract_people {''tt0000001''} [name_row ''Sigourney Weaver''] =
    Inr [(''nm0000001'',
          \<lparr>Person.imdb_id = ''nm0000001'', full_name = ''Sigourney Weaver'',
           last_name = Some ''Weaver'', first_name = Some ''Sigourney'',
           birth_year = Some ''1950'', death_year = None, primary_profession = Some ''actor'',
           known_for_title_ids = Some ''tt0000001''\<rparr>)]"
proof -
  have split: "NAME_REGEX_split ''Sigourney Weaver'' = ['''', ''Sigourney'', ''Weaver'', '''']"
    by (simp add: NAME_REGEX_split_def NAME_REGEX_match_def is_space_def)
  show ?thesis
    by (simp add: extract_people_def name_row_def nth_field_def
          has_valid_known_for_title_ids_def Person_init_def py_str_def split)
qed

lemma example_aka_titles:
  "extract_aka_titles {''tt0000001''}
     [aka_row ''tt0000001'' ''5'' ''Alien'', aka_row ''tt0000009'' ''1'' ''Nine'',
      aka_row ''tt0000001'' ''2'' ''Le huitieme passager''] =
    Inr [\<lparr>movie_imdb_id = ''tt0000001'', AkaTitle.sequence = 5, AkaTitle.title = ''Alien'',
          region = Some ''FR'', language = None, types = None, attributes = None,
          is_original_title = Some ''0''\<rparr>,
         \<lparr>movie_imdb_id = ''tt0000001'', AkaTitle.sequence = 2,
          AkaTitle.title = ''Le huitieme passager'',
          region = Some ''FR'', language = None, types = None, attributes = None,
          is_original_title = Some ''0''\<rparr>]"
proof -
  have five: "py_int ''5'' = Some 5" and two: "py_int ''2'' = Some 2"
    by (simp_all add: py_int_def int_strip_def is_int_space_def is_digit_def digit_val_def)
  show ?thesis
    by (simp add: extract_aka_titles_def aka_row_def nth_field_def in_title_ids_def
          AkaTitle_init_def py_str_def five two)
qed

lemma example_registry: "fst (title_ids refreshed_world) = Inr {''tt0000001''}"
  by (simp add: title_ids_def refreshed_world_def new_movies_table_def mk_column_def
        select_imdb_ids_def)

lemma example_movies_run:
  "movies_update (example_surroundings TableBase) old_world = (Inr (), refreshed_world)"
  by (simp add: movies_update_def example_surroundings_def movies_FILE_NAME_def
        checkpoint_def old_world_def movies_body_def extract_rows_def example_movies
        cache_clear_def MoviesTable_drop_and_create_def MoviesTable_insert_def
        TableBase_def movies_ddl_def movies_insert_stmt_def exec_stmt_def exec_insert_def
        add_index_def validate_def asdict_movie_def mk_column_def refreshed_world_def
        new_movies_table_def)

lemma example_registry_read:
  "title_ids refreshed_world =
     (Inr {''tt0000001''}, refreshed_world\<lparr>title_ids_cache := Some {''tt0000001''}\<rparr>)"
  by (simp add: title_ids_def refreshed_world_def new_movies_table_def mk_column_def
        select_imdb_ids_def)

lemma refreshed_world_fields:
  "tables refreshed_world = [''movies'' \<mapsto> new_movies_table]"
  "markers refreshed_world = {''/data/2020-03-07/title.basics.tsv.gz''}"
  "passes refreshed_world = [''/data/2020-03-07/title.basics.tsv.gz'']"
  by (simp_all add: refreshed_world_def)

lemma example_people_run:
  "fst (people_update (example_surroundings TableBase) refreshed_world) = Inr ()"
  by (simp add: people_update_def example_surroundings_def people_FILE_NAME_def
          checkpoint_def people_body_def example_registry_read extract_rows_def
          example_people PeopleTable_drop_and_create_def PeopleTable_insert_def
          TableBase_def people_ddl_def people_insert_stmt_def exec_stmt_def exec_insert_def
          add_index_def validate_def asdict_person_def mk_column_def refreshed_world_fields)

lemma example_aka_titles_run:
  "fst (aka_titles_update (example_surroundings TableBase) refreshed_world) = Inr ()"
  by (simp add: aka_titles_update_def example_surroundings_def aka_titles_FILE_NAME_def
          checkpoint_def aka_titles_body_def example_registry_read extract_rows_def
          example_aka_titles AkaTitlesTable_drop_and_create_def AkaTitlesTable_insert_def
          TableBase_def aka_titles_ddl_def aka_titles_insert_stmt_def exec_stmt_def
          exec_insert_def add_index_def validate_def asdict_aka_title_def mk_column_def
          refreshed_world_fields)

theorem refresh_twice_runs_body_once_witness:
  "base (example_surroundings TableBase) = TableBase
   \<and> movies_update (example_surroundings TableBase) old_world = (Inr (), refreshed_world)
   \<and> movies_update (example_surroundings TableBase) refreshed_world = (Inr (), refreshed_world)
   \<and> passes (snd (movies_update (example_surroundings TableBase) refreshed_world))
       = [''/data/2020-03-07/title.basics.tsv.gz'']
   \<and> tbl_rows (the (tables (snd (movies_update (example_surroundings TableBase)
                                   refreshed_world)) ''movies''))
       = [[(''imdb_id'', SText ''tt0000001''), (''title'', SText ''Alien''),
           (''year'', SText ''1979''), (''runtime_minutes'', SText ''117'')]]
   \<and> fst (people_update (example_surroundings TableBase) refreshed_world) = Inr ()
   \<and> people_update (example_surroundings TableBase)
        (snd (people_update (example_surroundings TableBase) refreshed_world))
       = (Inr (), snd (people_update (example_surroundings TableBase) refreshed_world))
   \<and> passes (snd (people_update (example_surroundings TableBase) refreshed_world))
       = [''/data/2020-03-07/title.basics.tsv.gz'', ''/data/2020-03-07/name.basics.tsv.gz'']
   \<and> tbl_rows (the (tables (snd (people_update (example_surroundings TableBase)
                                   refreshed_world)) ''people''))
       = [[(''imdb_id'', SText ''nm0000001''), (''full_name'', SText ''Sigourney Weaver''),
           (''last_name'', SText ''Weaver''), (''first_name'', SText ''Sigourney''),
           (''birth_year'', SText ''1950''), (''death_year'', SNull),
           (''primary_profession'', SText ''actor''),
           (''known_for_title_ids'', SText ''tt0000001'')]]
   \<and> fst (aka_titles_update (example_surroundings TableBase) refreshed_world) = Inr ()
   \<and> aka_titles_update (example_surroundings TableBase)
        (snd (aka_titles_update (example_surroundings TableBase) refreshed_world))
       = (Inr (), snd (aka_titles_update (example_surroundings TableBase) refreshed_world))
   \<and> passes (snd (aka_titles_update (example_surroundings TableBase) refreshed_world))
       = [''/data/2020-03-07/title.basics.tsv.gz'', ''/data/2020-03-07/title.akas.tsv.gz'']
   \<and> tbl_rows (the (tables (snd (aka_titles_update (example_surroundings TableBase)
                                   refreshed_world)) ''aka_titles''))
       = [[(''movie_imdb_id'', SText ''tt0000001''), (''sequence'', SInt 5),
           (''title'', SText ''Alien''), (''region'', SText ''FR''), (''language'', SNull),
           (''types'', SNull), (''attributes'', SNull), (''is_original_title'', SText ''0'')],
          [(''movie_imdb_id'', SText ''tt0000001''), (''sequence'', SInt 2),
           (''title'', SText ''Le huitieme passager''), (''region'', SText ''FR''),
           (''language'', SNull), (''types'', SNull), (''attributes'', SNull),
           (''is_original_title'', SText ''0'')]]"
proof -
  let ?env = "example_surroundings TableBase"
  let ?mp = "''/data/2020-03-07/title.basics.tsv.gz''"
  let ?pp = "''/data/2020-03-07/name.basics.tsv.gz''"
  let ?ap = "''/data/2020-03-07/title.akas.tsv.gz''"
  let ?wp = "snd (people_update ?env refreshed_world)"
  let ?wa = "snd (aka_titles_update ?env refreshed_world)"
  have h: "base ?env = TableBase" by (simp add: example_surroundings_def)
  note twice = refresh_twice_runs_body_once [OF h]
  have sm: "snapshot ?env ?mp = Inr example_title_rows"
    and sp: "snapshot ?env ?pp = Inr [name_row ''Sigourney Weaver'']"
    and sa: "snapshot ?env ?ap =
               Inr [aka_row ''tt0000001'' ''5'' ''Alien'', aka_row ''tt0000009'' ''1'' ''Nine'',
                    aka_row ''tt0000001'' ''2'' ''Le huitieme passager'']"
    by (simp_all add: example_surroundings_def)
  have pm: "passes old_world = []" and pr: "passes refreshed_world = [?mp]"
    by (simp_all add: old_world_def refreshed_world_def)

  have m_hyp: "download ?env movies_FILE_NAME = Inr ?mp \<and> ?mp \<notin> markers old_world
                 \<and> movies_update ?env old_world = (Inr (), refreshed_world)"
    using example_movies_run
    by (simp add: example_surroundings_def movies_FILE_NAME_def old_world_def)
  note m = twice [THEN conjunct1, rule_format, OF m_hyp]
  have m1: "movies_update ?env refreshed_world = (Inr (), refreshed_world)"
    using m by (rule conjunct1)
  have m2: "passes (snd (movies_update ?env refreshed_world)) = [?mp]"
    using m [THEN conjunct2, THEN conjunct1] by (simp only: pm append_Nil)
  from m [THEN conjunct2, THEN conjunct2] obtain snapshot_rows movies t where
    "snapshot ?env ?mp = Inr snapshot_rows" and "extract_movies snapshot_rows = Inr movies"
    and mt: "tables (snd (movies_update ?env refreshed_world)) ''movies'' = Some t"
    and "tbl_rows t =
           map (\<lambda>(k, m). [(''imdb_id'', SText (Movie.imdb_id m)),
                           (''title'', SText (Movie.title m)),
                           (''year'', SText (Movie.year m)),
                           (''runtime_minutes'', SText (runtime_minutes m))]) movies"
    by blast
  then have "tbl_rows t = [[(''imdb_id'', SText ''tt0000001''), (''title'', SText ''Alien''),
                            (''year'', SText ''1979''), (''runtime_minutes'', SText ''117'')]]"
    by (auto simp add: sm example_movies)
  then have m3: "tbl_rows (the (tables (snd (movies_update ?env refreshed_world)) ''movies''))
       = [[(''imdb_id'', SText ''tt0000001''), (''title'', SText ''Alien''),
           (''year'', SText ''1979''), (''runtime_minutes'', SText ''117'')]]"
    by (simp add: mt)

  have p0: "fst (people_update ?env refreshed_world) = Inr ()" by (rule example_people_run)
  have p_hyp: "download ?env people_FILE_NAME = Inr ?pp \<and> ?pp \<notin> markers refreshed_world
                 \<and> people_update ?env refreshed_world = (Inr (), ?wp)"
    using p0
    by (simp add: example_surroundings_def people_FILE_NAME_def refreshed_world_def
          prod_eq_iff)
  note p = twice [THEN conjunct2, THEN conjunct1, rule_format, OF p_hyp]
  have p1: "people_update ?env ?wp = (Inr (), ?wp)"
    using p by (rule conjunct1)
  have "passes (snd (people_update ?env ?wp)) = passes refreshed_world @ [?pp]"
    using p by (rule conjunct2 [THEN conjunct1])
  then have p2: "passes ?wp = [?mp, ?pp]"
    by (simp add: p1 pr)
  from p [THEN conjunct2, THEN conjunct2] obtain ids snapshot_rows people t where
    "fst (title_ids refreshed_world) = Inr ids"
    and "snapshot ?env ?pp = Inr snapshot_rows"
    and "extract_people ids snapshot_rows = Inr people"
    and pt: "tables (snd (people_update ?env ?wp)) ''people'' = Some t"
    and "tbl_rows t =
           map (\<lambda>(k, p). [(''imdb_id'', SText (Person.imdb_id p)),
                           (''full_name'', SText (full_name p)),
                           (''last_name'', opt_text (last_name p)),
                           (''first_name'', opt_text (first_name p)),
                           (''birth_year'', opt_text (birth_year p)),
                           (''death_year'', opt_text (death_year p)),
                           (''primary_profession'', opt_text (primary_profession p)),
                           (''known_for_title_ids'', opt_text (known_for_title_ids p))]) people"
    by blast
  then have "tbl_rows t =
      [[(''imdb_id'', SText ''nm0000001''), (''full_name'', SText ''Sigourney Weaver''),
        (''last_name'', SText ''Weaver''), (''first_name'', SText ''Sigourney''),
        (''birth_year'', SText ''1950''), (''death_year'', SNull),
        (''primary_profession'', SText ''actor''),
        (''known_for_title_ids'', SText ''tt0000001'')]]"
    by (auto simp add: example_registry sp example_people opt_text_def)
  then have p3: "tbl_rows (the (tables ?wp ''people'')) =
      [[(''imdb_id'', SText ''nm0000001''), (''full_name'', SText ''Sigourney Weaver''),
        (''last_name'', SText ''Weaver''), (''first_name'', SText ''Sigourney''),
        (''birth_year'', SText ''1950''), (''death_year'', SNull),
        (''primary_profession'', SText ''actor''),
        (''known_for_title_ids'', SText ''tt0000001'')]]"
    using pt by (simp add: p1)

  have a0: "fst (aka_titles_update ?env refreshed_world) = Inr ()"
    by (rule example_aka_titles_run)
  have a_hyp: "download ?env aka_titles_FILE_NAME = Inr ?ap \<and> ?ap \<notin> markers refreshed_world
                 \<and> aka_titles_update ?env refreshed_world = (Inr (), ?wa)"
    using a0
    by (simp add: example_surroundings_def aka_titles_FILE_NAME_def refreshed_world_def
          prod_eq_iff)
  note a = twice [THEN conjunct2, THEN conjunct2, rule_format, OF a_hyp]
  have a1: "aka_titles_update ?env ?wa = (Inr (), ?wa)"
    using a by (rule conjunct1)
  have "passes (snd (aka_titles_update ?env ?wa)) = passes refreshed_world @ [?ap]"
    using a by (rule conjunct2 [THEN conjunct1])
  then have a2: "passes ?wa = [?mp, ?ap]"
    by (simp add: a1 pr)
  from a [THEN conjunct2, THEN conjunct2] obtain ids snapshot_rows aka_titles t where
    "fst (title_ids refreshed_world) = Inr ids"
    and "snapshot ?env ?ap = Inr snapshot_rows"
    and "extract_aka_titles ids snapshot_rows = Inr aka_titles"
    and at: "tables (snd (aka_titles_update ?env ?wa)) ''aka_titles'' = Some t"
    and "tbl_rows t =
           map (\<lambda>a. [(''movie_imdb_id'', SText (movie_imdb_id a)),
                      (''sequence'', SInt (AkaTitle.sequence a)),
                      (''title'', SText (AkaTitle.title a)),
                      (''region'', opt_text (region a)),
                      (''language'', opt_text (language a)),
                      (''types'', opt_text (types a)),
                      (''attributes'', opt_text (attributes a)),
                      (''is_original_title'', opt_text (is_original_title a))]) aka_titles"
    by blast
  then have "tbl_rows t =
      [[(''movie_imdb_id'', SText ''tt0000001''), (''sequence'', SInt 5),
        (''title'', SText ''Alien''), (''region'', SText ''FR''), (''language'', SNull),
        (''types'', SNull), (''attributes'', SNull), (''is_original_title'', SText ''0'')],
       [(''movie_imdb_id'', SText ''tt0000001''), (''sequence'', SInt 2),
        (''title'', SText ''Le huitieme passager''), (''region'', SText ''FR''),
        (''language'', SNull), (''types'', SNull), (''attributes'', SNull),
        (''is_original_title'', SText ''0'')]]"
    by (auto simp add: example_registry sa example_aka_titles opt_text_def)
  then have a3: "tbl_rows (the (tables ?wa ''aka_titles'')) =
      [[(''movie_imdb_id'', SText ''tt0000001''), (''sequence'', SInt 5),
        (''title'', SText ''Alien''), (''region'', SText ''FR''), (''language'', SNull),
        (''types'', SNull), (''attributes'', SNull), (''is_original_title'', SText ''0'')],
       [(''movie_imdb_id'', SText ''tt0000001''), (''sequence'', SInt 2),
        (''title'', SText ''Le huitieme passager''), (''region'', SText ''FR''),
        (''language'', SNull), (''types'', SNull), (''attributes'', SNull),
        (''is_original_title'', SText ''0'')]]"
    using at by (simp add: a1)
  show ?thesis
    by (intro conjI) (rule h example_movies_run m1 m2 m3 p0 p1 p2 p3 a0 a1 a2 a3)+
qed
end
